theory Spec2Isabelle
  imports Main "HOL-Library.Word"
begin

unbundle bit_operations_syntax

section \<open>Data model of the tmx package (tmx.go)\<close>

text \<open>
  \<^verbatim>\<open>type GID uint32\<close> and \<^verbatim>\<open>type ID uint32\<close> are 32-bit words; comparison on words
  is unsigned, subtraction wraps.  Byte slices are lists of 8-bit words; Go strings are
  \<open>string\<close> (lists of 8-bit characters).
\<close>

type_synonym GID = "32 word"
type_synonym ID = "32 word"
type_synonym byte = "8 word"

definition GIDHorizontalFlip :: GID where
  "GIDHorizontalFlip = 0x80000000"

definition GIDVerticalFlip :: GID where
  "GIDVerticalFlip = 0x40000000"

definition GIDDiagonalFlip :: GID where
  "GIDDiagonalFlip = 0x20000000"

definition GIDFlip :: GID where
  "GIDFlip = GIDHorizontalFlip OR GIDVerticalFlip OR GIDDiagonalFlip"

text \<open>
  The error values of the library and of the exporter.  \<open>LibError\<close> stands for an error
  produced by a Go standard-library reader or parser (base64, gzip, zlib, strconv),
  \<open>IOError\<close> for a failed write, \<open>Panic\<close> for a run-time panic (index out of range,
  nil dereference).
\<close>

datatype error =
    UnknownEncoding
  | UnknownCompression
  | InvalidDecodedDataLen
  | InvalidGID
  | PropertyNotUnique
  | PropertyUnavailable
  | InvalidCompressionMethod
  | TooManyTiles
  | MultipleTilesets
  | EmptyLayer
  | LibError string
  | IOError
  | Panic

record Property =
  Name :: string
  Value :: string

text \<open>
  Of \<^verbatim>\<open>Tile\<close> and \<^verbatim>\<open>Tileset\<close> only the fields the decoder and the exporter read are kept:
  the first global id and the slice of tiles (whose length the exporter uses as the tile
  count).  The remaining fields are strings and pixel sizes that no function below reads.
\<close>

record Tile =
  TileID :: ID

record Tileset =
  FirstGID :: GID
  Tiles :: "Tile list"

text \<open>
  \<^verbatim>\<open>DecodedTile.Tileset\<close> is a pointer \<^verbatim>\<open>&m.Tilesets[i]\<close> or nil: it is modelled by the index
  \<open>i\<close> into the map's tileset slice, \<open>None\<close> for nil.  The field \<^verbatim>\<open>Nil\<close> is named
  \<open>NilFlag\<close> here.
\<close>

record DecodedTile =
  ID :: ID
  Tileset :: "nat option"
  HorizontalFlip :: bool
  VerticalFlip :: bool
  NilFlag :: bool

record Data =
  Encoding :: string
  Compression :: string
  RawData :: string
  DataTiles :: "GID list"

text \<open>
  \<^verbatim>\<open>Layer.Properties\<close> is the struct \<^verbatim>\<open>Properties\<close> whose only field is the slice of
  properties; it is modelled by that list.  \<open>LayerTileset\<close> is the field \<^verbatim>\<open>Layer.Tileset\<close>.
\<close>

record Layer =
  Properties :: "Property list"
  LayerData :: Data
  GIDs :: "GID list"
  DecodedTiles :: "DecodedTile list"
  LayerTileset :: "nat option"
  Empty :: bool

text \<open>
  \<^verbatim>\<open>Map.Width\<close> and \<^verbatim>\<open>Map.Height\<close> are Go \<^verbatim>\<open>int\<close>s: 64-bit words read as two's
  complement by \<open>sint\<close> (the size of \<^verbatim>\<open>int\<close> on a 64-bit platform).  Their products wrap
  around.
\<close>

type_synonym go_int = "64 word"

record TmxMap =
  Width :: go_int
  Height :: go_int
  Tilesets :: "Tileset list"
  Layers :: "Layer list"

section \<open>Resolving a GID (Map.DecodeGID)\<close>

text \<open>\<^verbatim>\<open>NilTile = &DecodedTile{Nil: false}\<close>: every field has its zero value.\<close>

definition NilTile :: DecodedTile where
  "NilTile = \<lparr>ID = 0, Tileset = None, HorizontalFlip = False, VerticalFlip = False,
     NilFlag = False\<rparr>"

text \<open>
  The loop \<^verbatim>\<open>for i := len(m.Tilesets) - 1; i >= 0; i--\<close>: the counter of \<open>scanTilesets\<close>
  is \<open>i + 1\<close>, so that \<open>0\<close> is the exit of the loop, which returns \<^verbatim>\<open>InvalidGID\<close>.
\<close>

fun scanTilesets :: "Tileset list \<Rightarrow> nat \<Rightarrow> GID \<Rightarrow> GID \<Rightarrow> error + DecodedTile" where
  "scanTilesets ts 0 gid gidBare = Inl InvalidGID"
| "scanTilesets ts (Suc i) gid gidBare =
     (if FirstGID (ts ! i) \<le> gidBare
      then Inr \<lparr>ID = gidBare - FirstGID (ts ! i),
                Tileset = Some i,
                HorizontalFlip = (gid AND GIDHorizontalFlip \<noteq> 0),
                VerticalFlip = (gid AND GIDVerticalFlip \<noteq> 0),
                NilFlag = False\<rparr>
      else scanTilesets ts i gid gidBare)"

definition DecodeGID :: "TmxMap \<Rightarrow> GID \<Rightarrow> error + DecodedTile" where
  "DecodeGID m gid =
     (if gid = 0 then Inr NilTile
      else scanTilesets (Tilesets m) (length (Tilesets m)) gid (gid AND NOT GIDFlip))"

section \<open>Property lookup\<close>

text \<open>\<^verbatim>\<open>Properties.Get\<close> (tmx.go): the values of all entries with the given name, in order.\<close>

fun Get :: "Property list \<Rightarrow> string \<Rightarrow> string list" where
  "Get [] name = []"
| "Get (prop # props) name =
     (if Name prop = name then Value prop # Get props name else Get props name)"

text \<open>
  The repository holds two revisions of \<^verbatim>\<open>GetProperty\<close>.  Both return the pair
  \<^verbatim>\<open>(value, err)\<close> of Go's named results; \<open>value\<close> is the empty string until it is
  assigned.

  \<open>GetProperty\<close> is the revision that takes \<^verbatim>\<open>[]tmx.Property\<close> and is called by
  \<^verbatim>\<open>Do\<close>: it collects the values in a loop of its own (the same loop as \<open>Get\<close>) and
  tests \<^verbatim>\<open>len(values)\<close> twice.
\<close>

definition GetProperty :: "Property list \<Rightarrow> string \<Rightarrow> string \<times> error option" where
  "GetProperty properties name =
     (let values = Get properties name in
      if length values > 1 then ('''', Some PropertyNotUnique)
      else if length values = 0 then ('''', Some PropertyUnavailable)
      else (values ! 0, None))"

text \<open>
  \<open>GetProperty_ptr\<close> is the revision that takes \<^verbatim>\<open>*tmx.Properties\<close> and is called by
  gba.go.  Its second test is \<^verbatim>\<open>len(value) == 0\<close>, on the result string \<^verbatim>\<open>value\<close>,
  which is still empty at that point.
\<close>

definition GetProperty_ptr :: "Property list \<Rightarrow> string \<Rightarrow> string \<times> error option" where
  "GetProperty_ptr p name =
     (let values = Get p name; value = '''' in
      if length values > 1 then (value, Some PropertyNotUnique)
      else if length value = 0 then (value, Some PropertyUnavailable)
      else (values ! 0, None))"

section \<open>Decoding the layer payload\<close>

subsection \<open>Go library functions\<close>

text \<open>
  The readers of Go's standard library are not part of the repository; they are
  parameters of the model.  A reader is described by the bytes it delivers and by the
  error that ends it (\<open>None\<close> for a clean end of input).  \<open>TrimSpace\<close> is
  \<^verbatim>\<open>bytes.TrimSpace\<close>.  \<open>base64Reader\<close> is \<^verbatim>\<open>base64.NewDecoder(base64.StdEncoding, r)\<close> on the
  given text: the decoder is lazy, so text that is invalid from some point on still
  delivers the bytes before that point.  \<open>gzipReadAll\<close> and \<open>zlibReadAll\<close> stand for
  \<^verbatim>\<open>gzip.NewReader\<close> or \<^verbatim>\<open>zlib.NewReader\<close> on such a reader followed by \<^verbatim>\<open>ioutil.ReadAll\<close>:
  the error of either step, or everything that was decompressed.  How much of its source a
  decompressing reader looks at is left to the parameter.
\<close>

type_synonym reader = "byte list \<times> error option"

record StdLib =
  TrimSpace :: "string \<Rightarrow> string"
  base64Reader :: "string \<Rightarrow> reader"
  gzipReadAll :: "reader \<Rightarrow> error + byte list"
  zlibReadAll :: "reader \<Rightarrow> error + byte list"

text \<open>\<^verbatim>\<open>ioutil.ReadAll\<close> on a reader: all of its bytes, or the error that ended it.\<close>

definition ReadAll :: "reader \<Rightarrow> error + byte list" where
  "ReadAll r = (case snd r of None \<Rightarrow> Inr (fst r) | Some err \<Rightarrow> Inl err)"

text \<open>
  \<^verbatim>\<open>strconv.ParseUint(s, 10, bitSize)\<close>: a non-empty string of decimal digits whose
  value fits in \<open>bitSize\<close> bits; anything else is an error.
\<close>

definition isDigit :: "char \<Rightarrow> bool" where
  "isDigit c = (48 \<le> (of_char c :: nat) \<and> (of_char c :: nat) \<le> 57)"

fun digitsValue :: "nat \<Rightarrow> string \<Rightarrow> nat" where
  "digitsValue acc [] = acc"
| "digitsValue acc (c # cs) = digitsValue (acc * 10 + ((of_char c :: nat) - 48)) cs"

definition ParseUint :: "string \<Rightarrow> nat \<Rightarrow> error + nat" where
  "ParseUint s bitSize =
     (if s = [] then Inl (LibError ''strconv: invalid syntax'')
      else if list_all isDigit s then
        (if digitsValue 0 s \<ge> 2 ^ bitSize then Inl (LibError ''strconv: value out of range'')
         else Inr (digitsValue 0 s))
      else Inl (LibError ''strconv: invalid syntax''))"

text \<open>\<^verbatim>\<open>strings.Split(s, ",")\<close>: the empty string splits into one empty token.\<close>

fun Split :: "string \<Rightarrow> string list" where
  "Split [] = [[]]"
| "Split (c # cs) =
     (if c = CHR '','' then [] # Split cs
      else (case Split cs of [] \<Rightarrow> [[c]] | t # ts \<Rightarrow> (c # t) # ts))"

subsection \<open>Data.decodeBase64 and Data.decodeCSV\<close>

definition decodeBase64 :: "StdLib \<Rightarrow> Data \<Rightarrow> error + byte list" where
  "decodeBase64 lib d =
     (let rawData = TrimSpace lib (RawData d);
          encr = base64Reader lib rawData
      in if Compression d = ''gzip'' then gzipReadAll lib encr
         else if Compression d = ''zlib'' then zlibReadAll lib encr
         else if Compression d = '''' then ReadAll encr
         else Inl UnknownCompression)"

text \<open>
  The \<^verbatim>\<open>cleaner\<close> of \<^verbatim>\<open>decodeCSV\<close> keeps digits and commas.  It runs over runes; digits
  and commas are single bytes and every byte of a longer rune is above them, so the
  byte-wise filter keeps the same text.
\<close>

definition cleaner :: "char \<Rightarrow> bool" where
  "cleaner r = (isDigit r \<or> r = CHR '','')"

fun parseTokens :: "string list \<Rightarrow> error + GID list" where
  "parseTokens [] = Inr []"
| "parseTokens (s # str) =
     (case ParseUint s 32 of
        Inl e \<Rightarrow> Inl e
      | Inr d \<Rightarrow> (case parseTokens str of Inl e \<Rightarrow> Inl e | Inr gs \<Rightarrow> Inr (of_nat d # gs)))"

definition decodeCSV :: "Data \<Rightarrow> error + GID list" where
  "decodeCSV d = parseTokens (Split (filter cleaner (RawData d)))"

subsection \<open>The three layer decoders\<close>

text \<open>
  \<^verbatim>\<open>len(...)\<close>, a non-negative \<^verbatim>\<open>int\<close>, is compared with the product of the map's
  dimensions, which is computed in \<^verbatim>\<open>int\<close> and wraps around.
\<close>

definition decodeLayerXML :: "TmxMap \<Rightarrow> Layer \<Rightarrow> error + Layer" where
  "decodeLayerXML m l =
     (if int (length (DataTiles (LayerData l))) \<noteq> sint (Width m * Height m)
      then Inl InvalidDecodedDataLen
      else Inr (l\<lparr>GIDs := DataTiles (LayerData l)\<rparr>))"

definition decodeLayerCSV :: "TmxMap \<Rightarrow> Layer \<Rightarrow> error + Layer" where
  "decodeLayerCSV m l =
     (case decodeCSV (LayerData l) of
        Inl err \<Rightarrow> Inl err
      | Inr gids \<Rightarrow>
          if int (length gids) \<noteq> sint (Width m * Height m) then Inl InvalidDecodedDataLen
          else Inr (l\<lparr>GIDs := gids\<rparr>))"

text \<open>
  The little-endian sum of \<^verbatim>\<open>decodeLayerBase64\<close>; in Go \<^verbatim>\<open><<\<close> binds tighter than
  \<^verbatim>\<open>+\<close>.
\<close>

definition gidAt :: "byte list \<Rightarrow> nat \<Rightarrow> GID" where
  "gidAt dataBytes j =
     ucast (dataBytes ! j) + push_bit 8 (ucast (dataBytes ! (j + 1)))
       + push_bit 16 (ucast (dataBytes ! (j + 2))) + push_bit 24 (ucast (dataBytes ! (j + 3)))"

text \<open>
  \<^verbatim>\<open>make([]GID, n)\<close> panics for a negative length and for a length whose size in bytes
  (four per id) does not fit the address space.
\<close>

definition makeGIDs :: "int \<Rightarrow> error + GID list" where
  "makeGIDs n =
     (if n < 0 then Inl Panic
      else if 2 ^ 62 \<le> n then Inl Panic
      else Inr (replicate (nat n) 0))"

text \<open>
  The two nested loops of \<^verbatim>\<open>decodeLayerBase64\<close>.  Each function counts the remaining
  iterations in its first numeric argument; the state is the read position \<open>j\<close> and
  the slice of ids.  The loop variables \<open>y\<close> and \<open>x\<close> start at 0 and stay below a
  dimension, so they are naturals; the index \<^verbatim>\<open>y*m.Width+x\<close> is computed in \<^verbatim>\<open>int\<close>.
  Reading \<^verbatim>\<open>dataBytes[j]\<close> to \<^verbatim>\<open>dataBytes[j+3]\<close> or writing \<^verbatim>\<open>l.GIDs[...]\<close> outside the slice is
  a panic.
\<close>

fun fillRow :: "byte list \<Rightarrow> go_int \<Rightarrow> nat \<Rightarrow> nat \<Rightarrow> nat \<Rightarrow> nat \<times> GID list
    \<Rightarrow> error + nat \<times> GID list" where
  "fillRow dataBytes width y 0 x st = Inr st"
| "fillRow dataBytes width y (Suc n) x (j, gids) =
     (if length dataBytes < j + 4 then Inl Panic
      else
        (let i = sint (of_nat y * width + of_nat x) in
         if i < 0 then Inl Panic
         else if int (length gids) \<le> i then Inl Panic
         else fillRow dataBytes width y n (x + 1) (j + 4, gids[nat i := gidAt dataBytes j])))"

fun fillRows :: "byte list \<Rightarrow> go_int \<Rightarrow> nat \<Rightarrow> nat \<Rightarrow> nat \<times> GID list
    \<Rightarrow> error + nat \<times> GID list" where
  "fillRows dataBytes width 0 y st = Inr st"
| "fillRows dataBytes width (Suc n) y st =
     (case fillRow dataBytes width y (nat (sint width)) 0 st of
        Inl err \<Rightarrow> Inl err
      | Inr st' \<Rightarrow> fillRows dataBytes width n (y + 1) st')"

definition decodeLayerBase64 :: "StdLib \<Rightarrow> TmxMap \<Rightarrow> Layer \<Rightarrow> error + Layer" where
  "decodeLayerBase64 lib m l =
     (case decodeBase64 lib (LayerData l) of
        Inl err \<Rightarrow> Inl err
      | Inr dataBytes \<Rightarrow>
          if int (length dataBytes) \<noteq> sint (Width m * Height m * 4)
          then Inl InvalidDecodedDataLen
          else
            (case makeGIDs (sint (Width m * Height m)) of
               Inl err \<Rightarrow> Inl err
             | Inr gids \<Rightarrow>
                 (case fillRows dataBytes (Width m) (nat (sint (Height m))) 0 (0, gids) of
                    Inl err \<Rightarrow> Inl err
                  | Inr (j, gids') \<Rightarrow> Inr (l\<lparr>GIDs := gids'\<rparr>))))"

definition decodeLayer :: "StdLib \<Rightarrow> TmxMap \<Rightarrow> Layer \<Rightarrow> error + Layer" where
  "decodeLayer lib m l =
     (if Encoding (LayerData l) = ''csv'' then decodeLayerCSV m l
      else if Encoding (LayerData l) = ''base64'' then decodeLayerBase64 lib m l
      else if Encoding (LayerData l) = '''' then decodeLayerXML m l
      else Inl UnknownEncoding)"

text \<open>\<^verbatim>\<open>decodeLayers\<close> stops at the first layer that fails.\<close>

fun decodeLayerList :: "StdLib \<Rightarrow> TmxMap \<Rightarrow> Layer list \<Rightarrow> error + Layer list" where
  "decodeLayerList lib m [] = Inr []"
| "decodeLayerList lib m (l # ls) =
     (case decodeLayer lib m l of
        Inl err \<Rightarrow> Inl err
      | Inr l' \<Rightarrow> (case decodeLayerList lib m ls of Inl err \<Rightarrow> Inl err | Inr ls' \<Rightarrow> Inr (l' # ls')))"

definition decodeLayers :: "StdLib \<Rightarrow> TmxMap \<Rightarrow> error + TmxMap" where
  "decodeLayers lib m =
     (case decodeLayerList lib m (Layers m) of
        Inl err \<Rightarrow> Inl err
      | Inr ls \<Rightarrow> Inr (m\<lparr>Layers := ls\<rparr>))"

section \<open>Tileset inference and Read\<close>

text \<open>
  The loop of \<^verbatim>\<open>getTileset\<close> over the decoded tiles; its state is the local \<^verbatim>\<open>tileset\<close>.
  The result is \<^verbatim>\<open>(tileset, isEmpty, usesMultipleTilesets)\<close>.
\<close>

fun getTilesetLoop :: "DecodedTile list \<Rightarrow> nat option \<Rightarrow> nat option \<times> bool \<times> bool" where
  "getTilesetLoop [] tileset =
     (if tileset = None then (None, True, False) else (tileset, False, False))"
| "getTilesetLoop (tile # tiles) tileset =
     (if \<not> NilFlag tile then
        (if tileset = None then getTilesetLoop tiles (Tileset tile)
         else if tileset \<noteq> Tileset tile then (tileset, False, True)
         else getTilesetLoop tiles tileset)
      else getTilesetLoop tiles tileset)"

definition getTileset :: "TmxMap \<Rightarrow> Layer \<Rightarrow> nat option \<times> bool \<times> bool" where
  "getTileset m l = getTilesetLoop (DecodedTiles l) None"

text \<open>The second loop of \<^verbatim>\<open>Read\<close>: every id of every layer goes through \<open>DecodeGID\<close>.\<close>

fun decodeTiles :: "TmxMap \<Rightarrow> GID list \<Rightarrow> error + DecodedTile list" where
  "decodeTiles m [] = Inr []"
| "decodeTiles m (gid # gids) =
     (case DecodeGID m gid of
        Inl err \<Rightarrow> Inl err
      | Inr t \<Rightarrow> (case decodeTiles m gids of Inl err \<Rightarrow> Inl err | Inr ts \<Rightarrow> Inr (t # ts)))"

fun resolveLayers :: "TmxMap \<Rightarrow> Layer list \<Rightarrow> error + Layer list" where
  "resolveLayers m [] = Inr []"
| "resolveLayers m (l # ls) =
     (case decodeTiles m (GIDs l) of
        Inl err \<Rightarrow> Inl err
      | Inr ts \<Rightarrow>
          (case resolveLayers m ls of
             Inl err \<Rightarrow> Inl err
           | Inr ls' \<Rightarrow> Inr (l\<lparr>DecodedTiles := ts\<rparr> # ls')))"

text \<open>The third loop of \<^verbatim>\<open>Read\<close>: a layer that uses several tilesets is left as it is.\<close>

definition inferLayer :: "TmxMap \<Rightarrow> Layer \<Rightarrow> Layer" where
  "inferLayer m l =
     (case getTileset m l of
        (tileset, isEmpty, usesMultipleTilesets) \<Rightarrow>
          if usesMultipleTilesets then l
          else l\<lparr>Empty := isEmpty, LayerTileset := tileset\<rparr>)"

text \<open>
  \<^verbatim>\<open>Read\<close> starts from \<^verbatim>\<open>new(Map)\<close> filled by the XML decoder, which is outside the
  repository.  Its argument here is that unmarshalled map; the derived fields of every
  layer, which carry no XML tag, start from their zero values.
\<close>

definition unmarshalled :: "Layer \<Rightarrow> Layer" where
  "unmarshalled l = l\<lparr>GIDs := [], DecodedTiles := [], LayerTileset := None, Empty := False\<rparr>"

definition Read :: "StdLib \<Rightarrow> TmxMap \<Rightarrow> error + TmxMap" where
  "Read lib m0 =
     (let m = m0\<lparr>Layers := map unmarshalled (Layers m0)\<rparr> in
      case decodeLayers lib m of
        Inl err \<Rightarrow> Inl err
      | Inr m1 \<Rightarrow>
          (case resolveLayers m1 (Layers m1) of
             Inl err \<Rightarrow> Inl err
           | Inr ls \<Rightarrow>
               let m2 = m1\<lparr>Layers := ls\<rparr> in
               Inr (m2\<lparr>Layers := map (inferLayer m2) (Layers m2)\<rparr>)))"

section \<open>The exporter (tmx2console)\<close>

subsection \<open>Output sink\<close>

text \<open>
  The \<^verbatim>\<open>io.WriteCloser\<close> a layer is written to.  \<open>written\<close> is what has reached the
  file, \<open>quota\<close> the number of \<^verbatim>\<open>Write\<close> calls that still succeed (every later call
  fails with an I/O error and writes nothing), \<open>closed\<close> whether \<^verbatim>\<open>Close\<close> has run.
\<close>

record Writer =
  written :: "byte list"
  quota :: nat
  closed :: bool

definition Write :: "Writer \<Rightarrow> byte list \<Rightarrow> Writer \<times> error option" where
  "Write w bs =
     (if quota w = 0 then (w, Some IOError)
      else (w\<lparr>written := written w @ bs, quota := quota w - 1\<rparr>, None))"

definition Close :: "Writer \<Rightarrow> Writer" where
  "Close w = w\<lparr>closed := True\<rparr>"

text \<open>
  A screenblock entry is an \<^verbatim>\<open>interface{}\<close> holding a \<^verbatim>\<open>uint8\<close> or a \<^verbatim>\<open>uint16\<close>.
  \<^verbatim>\<open>binary.Write\<close> encodes it in the given byte order and hands the bytes to the sink in
  one \<^verbatim>\<open>Write\<close>.
\<close>

datatype entry = U8 byte | U16 "16 word"

datatype Endian = LittleEndian | BigEndian

fun encode :: "Endian \<Rightarrow> entry \<Rightarrow> byte list" where
  "encode order (U8 v) = [v]"
| "encode LittleEndian (U16 v) = [ucast v, ucast (drop_bit 8 v)]"
| "encode BigEndian (U16 v) = [ucast (drop_bit 8 v), ucast v]"

text \<open>
  The package gbacomp is not part of the repository.  Its compressor is a parameter: a
  state of type \<open>'c\<close> created by \<open>NewCompressor\<close>, whose \<open>compWrite\<close> and \<open>compClose\<close>
  may write to the underlying sink.
\<close>

datatype Method = LZ77 | RLE | Huffman4 | Huffman8

definition CompressionMethods :: "string \<rightharpoonup> Method" where
  "CompressionMethods =
     [''LZ77'' \<mapsto> LZ77, ''RLE'' \<mapsto> RLE, ''Huffman4'' \<mapsto> Huffman4, ''Huffman8'' \<mapsto> Huffman8]"

record 'c Compressor =
  NewCompressor :: "Method \<Rightarrow> 'c"
  compWrite :: "'c \<Rightarrow> Writer \<Rightarrow> byte list \<Rightarrow> ('c \<times> Writer) \<times> error option"
  compClose :: "'c \<Rightarrow> Writer \<Rightarrow> 'c \<times> Writer"

text \<open>
  The variable \<^verbatim>\<open>b\<close> of \<^verbatim>\<open>saveLayer\<close> is the file itself (\<open>None\<close>) or a compressor on top
  of it.
\<close>

fun sinkWrite :: "'c Compressor \<Rightarrow> 'c option \<Rightarrow> Writer \<Rightarrow> byte list
    \<Rightarrow> ('c option \<times> Writer) \<times> error option" where
  "sinkWrite cmpr None w bs = (case Write w bs of (w', err) \<Rightarrow> ((None, w'), err))"
| "sinkWrite cmpr (Some cs) w bs =
     (case compWrite cmpr cs w bs of ((cs', w'), err) \<Rightarrow> ((Some cs', w'), err))"

subsection \<open>The Console interface and the GBA console (gba.go)\<close>

text \<open>
  A \<^verbatim>\<open>*tmx.Layer\<close> is passed as its identity \<open>k\<close> (in \<^verbatim>\<open>Do\<close> it is \<^verbatim>\<open>&m.Layers[k]\<close>) together
  with the layer it points to.  A console has a state of type \<open>'g\<close> which its methods may
  change.
\<close>

record 'g Console =
  MaxTiles :: "'g \<Rightarrow> TmxMap \<Rightarrow> nat \<Rightarrow> Layer \<Rightarrow> int \<times> 'g"
  ScreenblockEntry :: "'g \<Rightarrow> TmxMap \<Rightarrow> nat \<Rightarrow> Layer \<Rightarrow> DecodedTile \<Rightarrow> (error + entry) \<times> 'g"
  ByteOrder :: Endian

definition GBAHFlip :: "16 word" where
  "GBAHFlip = push_bit 10 1"

definition GBAVFlip :: "16 word" where
  "GBAVFlip = push_bit 11 1"

text \<open>The two caches are Go maps keyed by the layer pointer; a nil map has no entry.\<close>

record GBA =
  isAffineCache :: "nat \<rightharpoonup> bool"
  nilTileCache :: "nat \<rightharpoonup> 16 word"

text \<open>
  gba.go calls \<^verbatim>\<open>GetProperty(&l.Properties, ...)\<close>.  The lookup is the parameter \<open>gp\<close> of the
  functions below, so that they can be read with either revision of \<^verbatim>\<open>GetProperty\<close>; the
  call's argument type is that of \<open>GetProperty_ptr\<close>.
\<close>

type_synonym lookup = "Property list \<Rightarrow> string \<Rightarrow> string \<times> error option"

definition isAffine :: "lookup \<Rightarrow> GBA \<Rightarrow> nat \<Rightarrow> Layer \<Rightarrow> bool \<times> GBA" where
  "isAffine gp g k l =
     (case isAffineCache g k of
        Some affine \<Rightarrow> (affine, g)
      | None \<Rightarrow>
          (let affineString = fst (gp (Properties l) ''Affine'');
               affine = (affineString = ''true'')
           in (affine, g\<lparr>isAffineCache := (isAffineCache g)(k \<mapsto> affine)\<rparr>)))"

definition GBA_MaxTiles :: "lookup \<Rightarrow> GBA \<Rightarrow> TmxMap \<Rightarrow> nat \<Rightarrow> Layer \<Rightarrow> int \<times> GBA" where
  "GBA_MaxTiles gp g m k l =
     (case isAffine gp g k l of (affine, g') \<Rightarrow> (if affine then 255 else 511, g'))"

text \<open>
  \<^verbatim>\<open>GBA.nilTile\<close>.  On a cache miss the outer variable \<^verbatim>\<open>nilTile\<close> holds the zero value that
  the map lookup returned; inside the \<^verbatim>\<open>if !ok\<close> block \<^verbatim>\<open>nilTile := ...\<close> declares a second
  variable, which is the one that gets the tile count, the \<^verbatim>\<open>NilTile\<close> property and the
  cache entry.  The value returned after the block is the outer one.  \<^verbatim>\<open>l.Tileset.Tiles\<close>
  on a nil tileset is a panic.
\<close>

definition nilTile :: "lookup \<Rightarrow> GBA \<Rightarrow> TmxMap \<Rightarrow> nat \<Rightarrow> Layer \<Rightarrow> (error + entry) \<times> GBA" where
  "nilTile gp g m k l =
     (case nilTileCache g k of
        Some nilTile_outer \<Rightarrow>
          (case isAffine gp g k l of (affine, g') \<Rightarrow>
             (Inr (if affine then U8 (ucast nilTile_outer) else U16 nilTile_outer), g'))
      | None \<Rightarrow>
          (case LayerTileset l of
             None \<Rightarrow> (Inl Panic, g)
           | Some t \<Rightarrow>
               (let nilTile_outer = (0 :: 16 word);
                    nilTile_inner = (of_nat (length (Tiles (Tilesets m ! t))) :: 16 word);
                    nilTileString = fst (gp (Properties l) ''NilTile'');
                    nilTile_inner' =
                      (case ParseUint nilTileString 16 of
                         Inr nilTileNew \<Rightarrow> of_nat nilTileNew
                       | Inl err \<Rightarrow> nilTile_inner);
                    g1 = g\<lparr>nilTileCache := (nilTileCache g)(k \<mapsto> nilTile_inner')\<rparr>
                in case isAffine gp g1 k l of (affine, g2) \<Rightarrow>
                     (Inr (if affine then U8 (ucast nilTile_outer) else U16 nilTile_outer), g2))))"

definition GBA_ScreenblockEntry ::
    "lookup \<Rightarrow> GBA \<Rightarrow> TmxMap \<Rightarrow> nat \<Rightarrow> Layer \<Rightarrow> DecodedTile \<Rightarrow> (error + entry) \<times> GBA" where
  "GBA_ScreenblockEntry gp g m k l tile =
     (case isAffine gp g k l of (affine, g1) \<Rightarrow>
        if NilFlag tile then nilTile gp g1 m k l
        else
          (let tid = (ucast (ID tile) :: 16 word) in
           if affine then (Inr (U8 (ucast tid)), g1)
           else
             (let tid1 = (if HorizontalFlip tile then tid OR GBAHFlip else tid);
                  tid2 = (if VerticalFlip tile then tid1 OR GBAVFlip else tid1)
              in (Inr (U16 tid2), g1))))"

definition GBAConsole :: "lookup \<Rightarrow> GBA Console" where
  "GBAConsole gp =
     \<lparr>MaxTiles = GBA_MaxTiles gp, ScreenblockEntry = GBA_ScreenblockEntry gp,
      ByteOrder = LittleEndian\<rparr>"

subsection \<open>saveLayer: indexed mode\<close>

text \<open>
  The loops of \<^verbatim>\<open>saveLayer\<close>.  The state is the cell index \<^verbatim>\<open>i\<close>, the console, the
  compressor (if any) and the file.  The error of \<^verbatim>\<open>binary.Write\<close> is assigned to \<^verbatim>\<open>err\<close> and
  the loop goes on to \<^verbatim>\<open>i++\<close>; only the error of \<^verbatim>\<open>ScreenblockEntry\<close> is tested.  Reading
  \<^verbatim>\<open>l.DecodedTiles[i]\<close> beyond the slice is a panic.
\<close>

fun saveRow :: "'g Console \<Rightarrow> 'c Compressor \<Rightarrow> TmxMap \<Rightarrow> nat \<Rightarrow> Layer \<Rightarrow> nat
    \<Rightarrow> nat \<times> 'g \<times> 'c option \<times> Writer \<Rightarrow> error option \<times> nat \<times> 'g \<times> 'c option \<times> Writer" where
  "saveRow c cmpr m k l 0 st = (None, st)"
| "saveRow c cmpr m k l (Suc n) (i, g, b, w) =
     (if i \<ge> length (DecodedTiles l) then (Some Panic, i, g, b, w)
      else
        (case ScreenblockEntry c g m k l (DecodedTiles l ! i) of
           (Inl err, g') \<Rightarrow> (Some err, i, g', b, w)
         | (Inr tile, g') \<Rightarrow>
             (case sinkWrite cmpr b w (encode (ByteOrder c) tile) of
                ((b', w'), err) \<Rightarrow> saveRow c cmpr m k l n (i + 1, g', b', w'))))"

fun saveRows :: "'g Console \<Rightarrow> 'c Compressor \<Rightarrow> TmxMap \<Rightarrow> nat \<Rightarrow> Layer \<Rightarrow> nat
    \<Rightarrow> nat \<times> 'g \<times> 'c option \<times> Writer \<Rightarrow> error option \<times> nat \<times> 'g \<times> 'c option \<times> Writer" where
  "saveRows c cmpr m k l 0 st = (None, st)"
| "saveRows c cmpr m k l (Suc n) st =
     (case saveRow c cmpr m k l (nat (sint (Width m))) st of
        (Some err, st') \<Rightarrow> (Some err, st')
      | (None, st') \<Rightarrow> saveRows c cmpr m k l n st')"

text \<open>
  \<^verbatim>\<open>saveLayer\<close> returns its error together with the console and the file as it leaves
  them.  The deferred calls run on every return: \<^verbatim>\<open>b.Close()\<close> when a compressor was
  created, then \<^verbatim>\<open>w.Close()\<close>.
\<close>

definition saveLayer :: "'g Console \<Rightarrow> 'c Compressor \<Rightarrow> TmxMap \<Rightarrow> nat \<Rightarrow> Layer \<Rightarrow> 'g \<Rightarrow> Writer
    \<Rightarrow> error option \<times> 'g \<times> Writer" where
  "saveLayer c cmpr m k l g w =
     (case LayerTileset l of
        None \<Rightarrow>
          (if Empty l then (Some EmptyLayer, g, Close w)
           else (Some MultipleTilesets, g, Close w))
      | Some t \<Rightarrow>
          (case MaxTiles c g m k l of (maxTiles, g1) \<Rightarrow>
             if int (length (Tiles (Tilesets m ! t))) > maxTiles
             then (Some TooManyTiles, g1, Close w)
             else
               (let compression = fst (GetProperty (Properties l) ''Compression'') in
                if compression \<noteq> '''' then
                  (case CompressionMethods compression of
                     None \<Rightarrow> (Some InvalidCompressionMethod, g1, Close w)
                   | Some compressionMethod \<Rightarrow>
                       (case saveRows c cmpr m k l (nat (sint (Height m)))
                               (0, g1, Some (NewCompressor cmpr compressionMethod), w) of
                          (err, i, g2, b, w2) \<Rightarrow>
                            (err, g2,
                             Close (case b of None \<Rightarrow> w2
                                    | Some cs \<Rightarrow> snd (compClose cmpr cs w2)))))
                else
                  (case saveRows c cmpr m k l (nat (sint (Height m))) (0, g1, None, w) of
                     (err, i, g2, b, w2) \<Rightarrow> (err, g2, Close w2)))))"

subsection \<open>saveLayerBitmap: bitmap mode\<close>

text \<open>
  The loops of \<^verbatim>\<open>saveLayerBitmap\<close>.  The state is the counter \<^verbatim>\<open>i\<close> (which is both the cell
  index and the bit position, and is set back to \<open>0\<close> after each byte), the byte \<^verbatim>\<open>d\<close> and
  the file.  \<^verbatim>\<open>i&7\<close> on the unsigned \<^verbatim>\<open>i\<close> is \<open>i mod 8\<close>.
\<close>

fun bitmapRow :: "Layer \<Rightarrow> nat \<Rightarrow> nat \<times> byte \<times> Writer \<Rightarrow> error option \<times> nat \<times> byte \<times> Writer" where
  "bitmapRow l 0 st = (None, st)"
| "bitmapRow l (Suc n) (i, d, w) =
     (if i \<ge> length (DecodedTiles l) then (Some Panic, i, d, w)
      else
        (let d' = (if NilFlag (DecodedTiles l ! i) = False then d OR push_bit i 1 else d);
             i' = i + 1
         in if i' mod 8 = 0 then
              (case Write w [d'] of
                 (w', Some err) \<Rightarrow> (Some err, i', d', w')
               | (w', None) \<Rightarrow> bitmapRow l n (0, d', w'))
            else bitmapRow l n (i', d', w)))"

fun bitmapRows :: "TmxMap \<Rightarrow> Layer \<Rightarrow> nat \<Rightarrow> nat \<times> byte \<times> Writer
    \<Rightarrow> error option \<times> nat \<times> byte \<times> Writer" where
  "bitmapRows m l 0 st = (None, st)"
| "bitmapRows m l (Suc n) st =
     (case bitmapRow l (nat (sint (Width m))) st of
        (Some err, st') \<Rightarrow> (Some err, st')
      | (None, st') \<Rightarrow> bitmapRows m l n st')"

definition saveLayerBitmap :: "TmxMap \<Rightarrow> Layer \<Rightarrow> Writer \<Rightarrow> error option \<times> Writer" where
  "saveLayerBitmap m l w =
     (case bitmapRows m l (nat (sint (Height m))) (0, 0, w) of
        (err, i, d, w') \<Rightarrow> (err, Close w'))"

text \<open>
  The body of the last loop of \<^verbatim>\<open>Do\<close> for one layer, after its file has been opened: the
  \<^verbatim>\<open>Bitmap\<close> property selects the mode.
\<close>

definition exportLayer :: "'g Console \<Rightarrow> 'c Compressor \<Rightarrow> TmxMap \<Rightarrow> nat \<Rightarrow> Layer \<Rightarrow> 'g \<Rightarrow> Writer
    \<Rightarrow> error option \<times> 'g \<times> Writer" where
  "exportLayer c cmpr m k l g w =
     (let bitmap = fst (GetProperty (Properties l) ''Bitmap'') in
      if bitmap = ''true'' then
        (case saveLayerBitmap m l w of (err, w') \<Rightarrow> (err, g, w'))
      else saveLayer c cmpr m k l g w)"

section \<open>Concrete inputs\<close>

text \<open>
  The inputs at which the theorems below are instantiated or evaluated.  \<open>plainLib\<close>
  stands in for the Go library where a closed instance needs one: it hands the payload
  through unchanged, one byte per character.
\<close>

definition plainLib :: StdLib where
  "plainLib = \<lparr>TrimSpace = (\<lambda>s. s), base64Reader = (\<lambda>s. (map of_char s, None)),
     gzipReadAll = ReadAll, zlibReadAll = ReadAll\<rparr>"

definition emptyData :: Data where
  "emptyData = \<lparr>Encoding = '''', Compression = '''', RawData = '''', DataTiles = []\<rparr>"

text \<open>A layer as the XML decoder leaves it, with inline (XML) tile data.\<close>

definition xmlLayer :: "Property list \<Rightarrow> GID list \<Rightarrow> Layer" where
  "xmlLayer props gids =
     \<lparr>Properties = props, LayerData = emptyData\<lparr>DataTiles := gids\<rparr>,
      GIDs = [], DecodedTiles = [], LayerTileset = None, Empty = False\<rparr>"

definition tilesetOf :: "GID \<Rightarrow> nat \<Rightarrow> Tileset" where
  "tilesetOf first n = \<lparr>FirstGID = first, Tiles = replicate n \<lparr>TileID = 0\<rparr>\<rparr>"

text \<open>A 2 by 1 map with one tileset of 16 tiles starting at global id 1.\<close>

definition smallMap :: "Property list \<Rightarrow> GID list \<Rightarrow> TmxMap" where
  "smallMap props gids =
     \<lparr>Width = 2, Height = 1, Tilesets = [tilesetOf 1 16], Layers = [xmlLayer props gids]\<rparr>"

text \<open>A map with two tilesets, \<open>[1, 5)\<close> and \<open>[5, 9)\<close>.\<close>

definition twoSetMap :: "go_int \<Rightarrow> go_int \<Rightarrow> Property list \<Rightarrow> GID list \<Rightarrow> TmxMap" where
  "twoSetMap w h props gids =
     \<lparr>Width = w, Height = h, Tilesets = [tilesetOf 1 4, tilesetOf 5 4],
      Layers = [xmlLayer props gids]\<rparr>"

definition tileOf :: "nat \<Rightarrow> ID \<Rightarrow> DecodedTile" where
  "tileOf t i = \<lparr>ID = i, Tileset = Some t, HorizontalFlip = False, VerticalFlip = False,
     NilFlag = False\<rparr>"

text \<open>A decoded layer, as \<^verbatim>\<open>Read\<close> leaves one that uses a single tileset.\<close>

definition decodedLayer :: "Property list \<Rightarrow> DecodedTile list \<Rightarrow> nat option \<Rightarrow> bool \<Rightarrow> Layer" where
  "decodedLayer props tiles ts e =
     \<lparr>Properties = props, LayerData = emptyData, GIDs = [], DecodedTiles = tiles,
      LayerTileset = ts, Empty = e\<rparr>"

definition newFile :: "nat \<Rightarrow> Writer" where
  "newFile q = \<lparr>written = [], quota = q, closed = False\<rparr>"

definition newGBA :: GBA where
  "newGBA = \<lparr>isAffineCache = Map.empty, nilTileCache = Map.empty\<rparr>"

text \<open>A compressor that stores nothing and passes every write through.\<close>

definition passThrough :: "unit Compressor" where
  "passThrough = \<lparr>NewCompressor = (\<lambda>_. ()),
     compWrite = (\<lambda>cs w bs. case Write w bs of (w', err) \<Rightarrow> ((cs, w'), err)),
     compClose = (\<lambda>cs w. (cs, w))\<rparr>"

definition affineProps :: "Property list" where
  "affineProps = [\<lparr>Name = ''Affine'', Value = ''true''\<rparr>]"

definition bitmapProps :: "Property list" where
  "bitmapProps = [\<lparr>Name = ''Bitmap'', Value = ''true''\<rparr>]"

text \<open>A tile whose \<^verbatim>\<open>Nil\<close> field is set, and an affine layer of two such cells.\<close>

definition nilCell :: DecodedTile where
  "nilCell = NilTile\<lparr>NilFlag := True\<rparr>"

definition affineLayer :: Layer where
  "affineLayer = decodedLayer affineProps [nilCell, nilCell] (Some 0) False"

text \<open>A 4 by 2 layer whose rows come from two different tilesets.\<close>

definition mixedTiles :: "DecodedTile list" where
  "mixedTiles = [tileOf 0 0, tileOf 0 0, tileOf 0 0, tileOf 0 0,
                 tileOf 1 0, tileOf 1 0, tileOf 1 0, tileOf 1 0]"

text \<open>A 2 by 1 base64 layer; with \<open>plainLib\<close> its payload is the eight bytes themselves.\<close>

definition base64Layer :: "string \<Rightarrow> Layer" where
  "base64Layer raw =
     \<lparr>Properties = [],
      LayerData = \<lparr>Encoding = ''base64'', Compression = '''', RawData = raw, DataTiles = []\<rparr>,
      GIDs = [], DecodedTiles = [], LayerTileset = None, Empty = False\<rparr>"

text \<open>
  The layer that \<^verbatim>\<open>Read\<close> produces from the ids \<open>1, 0\<close> on \<open>smallMap\<close>, from \<open>0, 1\<close>
  with the \<^verbatim>\<open>Affine\<close> property, and from the two-tileset ids on \<open>twoSetMap\<close>.
\<close>

definition readLayer :: "Property list \<Rightarrow> GID list \<Rightarrow> DecodedTile list \<Rightarrow> nat option \<Rightarrow> bool \<Rightarrow> Layer" where
  "readLayer props gids tiles ts e =
     (xmlLayer props gids)\<lparr>GIDs := gids, DecodedTiles := tiles, LayerTileset := ts, Empty := e\<rparr>"

definition trailingZeroLayer :: Layer where
  "trailingZeroLayer = readLayer [] [1, 0] [tileOf 0 0, NilTile] None False"

definition leadingZeroLayer :: Layer where
  "leadingZeroLayer = readLayer affineProps [0, 1] [NilTile, tileOf 0 0] (Some 0) False"

definition mixedGIDs :: "GID list" where
  "mixedGIDs = [1, 1, 1, 1, 5, 5, 5, 5]"

definition mixedLayer :: Layer where
  "mixedLayer = readLayer bitmapProps mixedGIDs mixedTiles None False"

text \<open>A map whose tileset has 512 tiles, and a layer that uses it.\<close>

definition bigMap :: TmxMap where
  "bigMap = \<lparr>Width = 1, Height = 1, Tilesets = [tilesetOf 1 512], Layers = []\<rparr>"

text \<open>
  A 2 by 1 map with two base64 layers, of eight and of seven bytes, and a map of width 2
  and height \<open>- (2 ^ 63 - 1)\<close>, for which Go's \<^verbatim>\<open>m.Width*m.Height*4\<close> is 8.
\<close>

definition twoLayerMap :: TmxMap where
  "twoLayerMap =
     \<lparr>Width = 2, Height = 1, Tilesets = [tilesetOf 1 16],
      Layers = [base64Layer ''ABCDEFGH'', base64Layer ''ABCDEFG'']\<rparr>"

definition wrapMap :: TmxMap where
  "wrapMap =
     \<lparr>Width = 2, Height = 0x8000000000000001, Tilesets = [tilesetOf 1 16],
      Layers = [base64Layer ''ABCDEFGH'']\<rparr>"

section \<open>Auxiliary facts\<close>

lemmas gid_defs = DecodeGID_def GIDFlip_def GIDHorizontalFlip_def GIDVerticalFlip_def
  GIDDiagonalFlip_def NilTile_def

lemmas ex_defs = plainLib_def emptyData_def xmlLayer_def tilesetOf_def smallMap_def
  twoSetMap_def tileOf_def decodedLayer_def newFile_def newGBA_def
  passThrough_def affineProps_def bitmapProps_def nilCell_def affineLayer_def mixedTiles_def
  base64Layer_def readLayer_def trailingZeroLayer_def leadingZeroLayer_def mixedGIDs_def
  mixedLayer_def bigMap_def twoLayerMap_def wrapMap_def

lemmas read_defs = Read_def unmarshalled_def decodeLayers_def decodeLayer_def decodeLayerXML_def
  inferLayer_def getTileset_def

lemmas gba_defs = GBAConsole_def GBA_MaxTiles_def GBA_ScreenblockEntry_def isAffine_def
  nilTile_def GetProperty_def GetProperty_ptr_def ParseUint_def isDigit_def GBAHFlip_def
  GBAVFlip_def

lemmas save_defs = saveLayer_def saveLayerBitmap_def exportLayer_def Write_def Close_def
  CompressionMethods_def

subsection \<open>Unfolding the loops at a positive counter\<close>

lemma bitmapRow_step:
  "0 < n \<Longrightarrow> bitmapRow l n (i, d, w) =
     (if i \<ge> length (DecodedTiles l) then (Some Panic, i, d, w)
      else
        (let d' = (if NilFlag (DecodedTiles l ! i) = False then d OR push_bit i 1 else d);
             i' = i + 1
         in if i' mod 8 = 0 then
              (case Write w [d'] of
                 (w', Some err) \<Rightarrow> (Some err, i', d', w')
               | (w', None) \<Rightarrow> bitmapRow l (n - 1) (0, d', w'))
            else bitmapRow l (n - 1) (i', d', w)))"
  by (cases n) (auto split: prod.splits option.splits sum.splits)

lemma bitmapRows_step:
  "0 < n \<Longrightarrow> bitmapRows m l n st =
     (case bitmapRow l (nat (sint (Width m))) st of
        (Some err, st') \<Rightarrow> (Some err, st')
      | (None, st') \<Rightarrow> bitmapRows m l (n - 1) st')"
  by (cases n) (auto split: prod.splits option.splits sum.splits)

lemma saveRow_step:
  "0 < n \<Longrightarrow> saveRow c cmpr m k l n (i, g, b, w) =
     (if i \<ge> length (DecodedTiles l) then (Some Panic, i, g, b, w)
      else
        (case ScreenblockEntry c g m k l (DecodedTiles l ! i) of
           (Inl err, g') \<Rightarrow> (Some err, i, g', b, w)
         | (Inr tile, g') \<Rightarrow>
             (case sinkWrite cmpr b w (encode (ByteOrder c) tile) of
                ((b', w'), err) \<Rightarrow> saveRow c cmpr m k l (n - 1) (i + 1, g', b', w'))))"
  by (cases n) (auto split: prod.splits option.splits sum.splits)

lemma saveRows_step:
  "0 < n \<Longrightarrow> saveRows c cmpr m k l n st =
     (case saveRow c cmpr m k l (nat (sint (Width m))) st of
        (Some err, st') \<Rightarrow> (Some err, st')
      | (None, st') \<Rightarrow> saveRows c cmpr m k l (n - 1) st')"
  by (cases n) (auto split: prod.splits option.splits sum.splits)

lemmas steps = bitmapRow_step bitmapRows_step saveRow_step saveRows_step

subsection \<open>The flip bits\<close>

lemma bit_GIDHorizontalFlip: "bit GIDHorizontalFlip n \<longleftrightarrow> n = 31"
proof -
  have e: "GIDHorizontalFlip = 2 ^ 31" by (simp add: GIDHorizontalFlip_def)
  have "bit ((2::32 word) ^ 31) n \<longleftrightarrow> possible_bit TYPE(32 word) n \<and> n = 31"
    by (rule bit_exp_iff)
  then show ?thesis unfolding e by auto
qed

lemma bit_GIDVerticalFlip: "bit GIDVerticalFlip n \<longleftrightarrow> n = 30"
proof -
  have e: "GIDVerticalFlip = 2 ^ 30" by (simp add: GIDVerticalFlip_def)
  have "bit ((2::32 word) ^ 30) n \<longleftrightarrow> possible_bit TYPE(32 word) n \<and> n = 30"
    by (rule bit_exp_iff)
  then show ?thesis unfolding e by auto
qed

lemma bit_GIDDiagonalFlip: "bit GIDDiagonalFlip n \<longleftrightarrow> n = 29"
proof -
  have e: "GIDDiagonalFlip = 2 ^ 29" by (simp add: GIDDiagonalFlip_def)
  have "bit ((2::32 word) ^ 29) n \<longleftrightarrow> possible_bit TYPE(32 word) n \<and> n = 29"
    by (rule bit_exp_iff)
  then show ?thesis unfolding e by auto
qed

lemma bit_GIDFlip: "bit GIDFlip n \<longleftrightarrow> n = 29 \<or> n = 30 \<or> n = 31"
  by (auto simp add: GIDFlip_def bit_or_iff bit_GIDHorizontalFlip bit_GIDVerticalFlip
      bit_GIDDiagonalFlip)

lemmas bit_GID = bit_GIDHorizontalFlip bit_GIDVerticalFlip bit_GIDDiagonalFlip bit_GIDFlip

lemmas word32_eq_iff = bit_eq_iff [where ?'a = "32 word"]

lemma horizontal_bit: "(gid AND GIDHorizontalFlip \<noteq> 0) = bit gid 31"
  by (auto simp add: word32_eq_iff bit_and_iff bit_GIDHorizontalFlip)

lemma vertical_bit: "(gid AND GIDVerticalFlip \<noteq> 0) = bit gid 30"
  by (auto simp add: word32_eq_iff bit_and_iff bit_GIDVerticalFlip)

lemma low_bits_mask: "(0x1FFFFFFF :: 32 word) = mask 29"
  by (simp add: mask_eq_exp_minus_1)

lemma bare_set_diagonal: "(gid OR GIDDiagonalFlip) AND NOT GIDFlip = gid AND NOT GIDFlip"
  by (rule bit_eqI) (auto simp add: bit_simps bit_GID)

lemma bare_clear_diagonal: "(gid AND NOT GIDDiagonalFlip) AND NOT GIDFlip = gid AND NOT GIDFlip"
  by (rule bit_eqI) (auto simp add: bit_simps bit_GID)

lemma nonzero_set_diagonal: "gid AND mask 29 \<noteq> 0 \<Longrightarrow> gid OR GIDDiagonalFlip \<noteq> (0::32 word)"
  by (auto simp add: word32_eq_iff bit_simps bit_GID)

lemma nonzero_clear_diagonal:
  "gid AND mask 29 \<noteq> 0 \<Longrightarrow> gid AND NOT GIDDiagonalFlip \<noteq> (0::32 word)"
  by (auto simp add: word32_eq_iff bit_simps bit_GID)

subsection \<open>The scan over the tilesets\<close>

text \<open>The scan reads the id only through its two tested flip bits.\<close>

lemma scanTilesets_flags:
  "(gid AND GIDHorizontalFlip \<noteq> 0) = (gid' AND GIDHorizontalFlip \<noteq> 0) \<Longrightarrow>
   (gid AND GIDVerticalFlip \<noteq> 0) = (gid' AND GIDVerticalFlip \<noteq> 0) \<Longrightarrow>
   scanTilesets ts n gid b = scanTilesets ts n gid' b"
  by (induction n) auto

text \<open>
  If tileset \<open>k\<close> starts at or below the bare id and every tileset after it starts above,
  the scan from the end stops at \<open>k\<close>.
\<close>

lemma scanTilesets_hit:
  assumes "k < n"
    and "FirstGID (ts ! k) \<le> bare"
    and "\<forall>j. k < j \<and> j < n \<longrightarrow> \<not> FirstGID (ts ! j) \<le> bare"
  shows "scanTilesets ts n gid bare =
           Inr \<lparr>ID = bare - FirstGID (ts ! k), Tileset = Some k,
                HorizontalFlip = (gid AND GIDHorizontalFlip \<noteq> 0),
                VerticalFlip = (gid AND GIDVerticalFlip \<noteq> 0), NilFlag = False\<rparr>"
  using assms
proof (induction n)
  case 0
  then show ?case by simp
next
  case (Suc n)
  show ?case
  proof (cases "k = n")
    case True
    with Suc.prems show ?thesis by simp
  next
    case False
    with Suc.prems have kn: "k < n" by simp
    from Suc.prems kn have miss: "\<not> FirstGID (ts ! n) \<le> bare" by simp
    from Suc.prems have "\<forall>j. k < j \<and> j < n \<longrightarrow> \<not> FirstGID (ts ! j) \<le> bare" by simp
    with Suc.IH kn Suc.prems(2) miss show ?thesis by simp
  qed
qed

subsection \<open>The two revisions of GetProperty\<close>

lemma Get_filter: "Get ps name = map Value (filter (\<lambda>p. Name p = name) ps)"
  by (induction ps) auto

text \<open>
  The revision called by \<^verbatim>\<open>Do\<close> returns the value exactly when one entry carries the
  name, \<^verbatim>\<open>PropertyUnavailable\<close> when none does and \<^verbatim>\<open>PropertyNotUnique\<close> when several do.
\<close>

lemma GetProperty_cases:
  "GetProperty ps name =
     (case filter (\<lambda>p. Name p = name) ps of
        [] \<Rightarrow> ('''', Some PropertyUnavailable)
      | [p] \<Rightarrow> (Value p, None)
      | _ \<Rightarrow> ('''', Some PropertyNotUnique))"
  by (simp add: GetProperty_def Get_filter Let_def split: list.splits)

text \<open>The revision called by gba.go never returns a value.\<close>

lemma GetProperty_ptr_always_fails:
  "GetProperty_ptr ps name =
     ('''', Some (if length (Get ps name) > 1 then PropertyNotUnique else PropertyUnavailable))"
  by (simp add: GetProperty_ptr_def)

subsection \<open>The little-endian sum and the loops of decodeLayerBase64\<close>

lemma unat_byte_lt: "unat (b :: byte) < 256"
  using unsigned_less [of b, where ?'a = nat] by simp

lemma ucast_byte_of_nat: "(ucast x :: 32 word) = of_nat (unat x)" for x :: byte
  by simp

lemma little_endian_of_nat:
  fixes a b c d :: byte
  shows "(ucast a + push_bit 8 (ucast b) + push_bit 16 (ucast c) + push_bit 24 (ucast d) :: 32 word)
      = of_nat (unat a + 256 * unat b + 65536 * unat c + 16777216 * unat d)"
  unfolding ucast_byte_of_nat push_bit_eq_mult by simp

lemma unat_little_endian:
  fixes a b c d :: byte
  shows "unat (ucast a + push_bit 8 (ucast b) + push_bit 16 (ucast c) + push_bit 24 (ucast d) :: 32 word)
      = unat a + 256 * unat b + 65536 * unat c + 16777216 * unat d"
proof -
  have "unat a < 256" "unat b < 256" "unat c < 256" "unat d < 256"
    by (rule unat_byte_lt)+
  then have "unat a + 256 * unat b + 65536 * unat c + 16777216 * unat d < 2 ^ 32"
    by simp
  then show ?thesis
    unfolding little_endian_of_nat unat_of_nat by simp
qed

lemma unat_gidAt:
  "unat (gidAt bs j) =
     unat (bs ! j) + 256 * unat (bs ! (j + 1)) + 65536 * unat (bs ! (j + 2))
       + 16777216 * unat (bs ! (j + 3))"
  unfolding gidAt_def by (rule unat_little_endian)

text \<open>Go's \<^verbatim>\<open>int\<close> arithmetic where nothing wraps around.\<close>

lemma sint_of_nat_small:
  assumes "k < 2 ^ 63"
  shows "sint (of_nat k :: go_int) = int k"
proof -
  have "sint (of_nat k :: go_int) = signed_take_bit 63 (int k)"
    by (simp add: signed_of_nat)
  also have "\<dots> = int k"
    using assms by (intro signed_take_bit_int_eq_self) simp_all
  finally show ?thesis .
qed

lemma uint_nonneg_sint:
  assumes "0 \<le> sint (w :: go_int)"
  shows "uint w = sint w" and "uint w < 2 ^ 63"
proof -
  have lt: "uint w < 2 ^ 64" using unsigned_less [of w, where ?'a = int] by simp
  have ge: "0 \<le> uint w" by simp
  have s: "sint w = signed_take_bit 63 (uint w)"
    by (simp add: sint_uint)
  show small: "uint w < 2 ^ 63"
  proof (rule ccontr)
    assume "\<not> uint w < 2 ^ 63"
    then have big: "2 ^ 63 \<le> uint w" by simp
    have "signed_take_bit 63 (uint w) = uint w - 2 ^ 64"
    proof -
      have "(uint w + 2 ^ 63) mod 2 ^ 64 = uint w + 2 ^ 63 - 2 ^ 64"
        using big lt by (simp add: mod_pos_geq)
      then show ?thesis
        by (simp add: signed_take_bit_eq_take_bit_shift take_bit_eq_mod)
    qed
    with s assms lt show False by simp
  qed
  show "uint w = sint w"
  proof -
    have "- (2 ^ 63) \<le> (0::int)" by simp
    with ge have "- (2 ^ 63) \<le> uint w" by (rule order_trans [rotated])
    then have "signed_take_bit 63 (uint w) = uint w"
      using small by (rule signed_take_bit_int_eq_self)
    then show ?thesis by (simp only: s)
  qed
qed

lemma unat_nonneg_sint:
  assumes "0 \<le> sint (w :: go_int)"
  shows "unat w = nat (sint w)"
  using uint_nonneg_sint(1) [OF assms] by (simp add: unat_eq_nat_uint)

lemma index_no_wrap:
  assumes "y * unat (w :: go_int) + x < 2 ^ 63"
  shows "sint (of_nat y * w + of_nat x) = int (y * unat w + x)"
proof -
  have "of_nat y * w + of_nat x = (of_nat (y * unat w + x) :: go_int)"
    by simp
  then show ?thesis
    using sint_of_nat_small [OF assms] by (simp only:)
qed

lemma product_no_wrap:
  fixes w h :: go_int
  assumes w: "0 \<le> sint w" and h: "0 \<le> sint h" and small: "sint w * sint h * 4 < 2 ^ 63"
  shows "sint (w * h) = sint w * sint h"
    and "sint (w * h * 4) = sint w * sint h * 4"
proof -
  let ?a = "nat (sint w)" and ?b = "nat (sint h)"
  have uw: "unat w = ?a" and uh: "unat h = ?b"
    using w h by (simp_all add: unat_nonneg_sint)
  have i4: "int (?a * ?b * 4) = sint w * sint h * 4"
    using w h by simp
  with small have "int (?a * ?b * 4) < 2 ^ 63" by simp
  then have s4: "?a * ?b * 4 < 2 ^ 63"
    by (metis of_nat_less_iff of_nat_numeral of_nat_power)
  then have s1: "?a * ?b < 2 ^ 63" by linarith
  have "w * h = of_nat (unat w * unat h)" by simp
  then have e1: "w * h = of_nat (?a * ?b)" by (simp only: uw uh)
  have "sint (w * h) = int (?a * ?b)"
    unfolding e1 by (rule sint_of_nat_small [OF s1])
  then show "sint (w * h) = sint w * sint h"
    using w h by simp
  have "w * h * 4 = of_nat (unat w * unat h * 4)" by simp
  then have e4: "w * h * 4 = of_nat (?a * ?b * 4)" by (simp only: uw uh)
  have "sint (w * h * 4) = int (?a * ?b * 4)"
    unfolding e4 by (rule sint_of_nat_small [OF s4])
  then show "sint (w * h * 4) = sint w * sint h * 4"
    using i4 by simp
qed

text \<open>The loops of \<open>decodeLayerBase64\<close> on a payload of the right length.\<close>

lemma fillRow_ok:
  assumes "j + 4 * n \<le> length bs"
    and "y * unat w + x + n \<le> length g"
    and "length g < 2 ^ 63"
  shows "\<exists>g'. fillRow bs w y n x (j, g) = Inr (j + 4 * n, g')
           \<and> length g' = length g
           \<and> (\<forall>p. g' ! p =
                 (if y * unat w + x \<le> p \<and> p < y * unat w + x + n
                  then gidAt bs (j + 4 * (p - (y * unat w + x))) else g ! p))"
  using assms
proof (induction n arbitrary: x j g)
  case 0
  then show ?case by auto
next
  case (Suc n)
  let ?s = "y * unat w + x"
  let ?g = "g[?s := gidAt bs j]"
  from Suc.prems have inb: "?s < length g" by simp
  with Suc.prems have "?s < 2 ^ 63" by linarith
  then have idx: "sint (of_nat y * w + of_nat x) = int ?s"
    by (rule index_no_wrap)
  from Suc.prems have rd: "\<not> length bs < j + 4" by simp
  have i0: "\<not> sint (of_nat y * w + of_nat x) < 0"
    by (simp only: idx of_nat_less_0_iff not_False_eq_True)
  have i1: "\<not> int (length g) \<le> sint (of_nat y * w + of_nat x)"
    using inb by (simp only: idx of_nat_le_iff not_le)
  have i2: "nat (sint (of_nat y * w + of_nat x)) = ?s"
    by (simp only: idx nat_int)
  have step: "fillRow bs w y (Suc n) x (j, g) = fillRow bs w y n (x + 1) (j + 4, ?g)"
    by (simp only: fillRow.simps rd i0 i1 i2 Let_def if_False)
  from Suc.prems have "j + 4 + 4 * n \<le> length bs" "y * unat w + (x + 1) + n \<le> length ?g"
    "length ?g < 2 ^ 63"
    by simp_all
  from Suc.IH [OF this] obtain g' where
    r: "fillRow bs w y n (x + 1) (j + 4, ?g) = Inr (j + 4 + 4 * n, g')"
    and l: "length g' = length ?g"
    and c: "\<forall>p. g' ! p =
                 (if y * unat w + (x + 1) \<le> p \<and> p < y * unat w + (x + 1) + n
                  then gidAt bs (j + 4 + 4 * (p - (y * unat w + (x + 1)))) else ?g ! p)"
    by blast
  have "g' ! p = (if ?s \<le> p \<and> p < ?s + Suc n then gidAt bs (j + 4 * (p - ?s)) else g ! p)" for p
  proof (cases "p = ?s")
    case True
    with c inb show ?thesis by simp
  next
    case False
    have "j + 4 + 4 * (p - (?s + 1)) = j + 4 * (p - ?s)" if "?s + 1 \<le> p"
      using that by simp
    with False c show ?thesis by (auto simp add: add.assoc)
  qed
  with step r l show ?case by (simp add: add.assoc)
qed

lemma fillRows_ok:
  assumes w: "0 \<le> sint w"
    and "4 * ((y + n) * unat w) \<le> length bs"
    and "(y + n) * unat w \<le> length g"
    and "length g < 2 ^ 63"
  shows "\<exists>j' g'. fillRows bs w n y (4 * (y * unat w), g) = Inr (j', g')
           \<and> length g' = length g
           \<and> (\<forall>p. g' ! p =
                 (if y * unat w \<le> p \<and> p < (y + n) * unat w then gidAt bs (4 * p) else g ! p))"
  using assms(2-)
proof (induction n arbitrary: y g)
  case 0
  then show ?case by auto
next
  case (Suc n)
  let ?u = "unat w"
  have cnt: "nat (sint w) = ?u"
    using w by (simp add: unat_nonneg_sint)
  from Suc.prems have a: "4 * (y * ?u) + 4 * ?u \<le> length bs" and b: "y * ?u + 0 + ?u \<le> length g"
    by (simp_all add: algebra_simps)
  from fillRow_ok [OF a b Suc.prems(3)] obtain g1 where
    r1: "fillRow bs w y ?u 0 (4 * (y * ?u), g) = Inr (4 * (y * ?u) + 4 * ?u, g1)"
    and l1: "length g1 = length g"
    and c1: "\<forall>p. g1 ! p =
        (if y * ?u + 0 \<le> p \<and> p < y * ?u + 0 + ?u
         then gidAt bs (4 * (y * ?u) + 4 * (p - (y * ?u + 0))) else g ! p)"
    by blast
  have j1: "4 * (y * ?u) + 4 * ?u = 4 * ((y + 1) * ?u)"
    by (simp add: algebra_simps)
  have c1': "g1 ! p = (if y * ?u \<le> p \<and> p < y * ?u + ?u then gidAt bs (4 * p) else g ! p)" for p
    using c1 by (auto simp add: algebra_simps)
  from Suc.prems l1 have "4 * ((y + 1 + n) * ?u) \<le> length bs" "(y + 1 + n) * ?u \<le> length g1"
    "length g1 < 2 ^ 63"
    by (simp_all add: algebra_simps)
  from Suc.IH [OF this] obtain j' g' where
    r: "fillRows bs w n (y + 1) (4 * ((y + 1) * ?u), g1) = Inr (j', g')"
    and l: "length g' = length g1"
    and c: "\<forall>p. g' ! p =
        (if (y + 1) * ?u \<le> p \<and> p < (y + 1 + n) * ?u then gidAt bs (4 * p) else g1 ! p)"
    by blast
  have run: "fillRows bs w (Suc n) y (4 * (y * ?u), g) = Inr (j', g')"
    using r1 r by (simp add: cnt j1)
  have "g' ! p = (if y * ?u \<le> p \<and> p < (y + Suc n) * ?u then gidAt bs (4 * p) else g ! p)" for p
    using c c1' [of p] by (auto simp add: algebra_simps)
  with run l l1 show ?case by simp
qed

text \<open>\<open>decodeLayers\<close> returns the error of the first layer that fails.\<close>

lemma decodeLayerList_first_error:
  assumes "\<forall>l' \<in> set ls1. \<exists>r. decodeLayer lib m l' = Inr r"
    and "decodeLayer lib m l = Inl err"
  shows "decodeLayerList lib m (ls1 @ l # ls2) = Inl err"
  using assms by (induction ls1) auto

section \<open>The claims\<close>

text \<open>
  C1.  A raw id whose low 29 bits are zero should resolve to the Nil sentinel, a tile that
  is Nil, without error, whatever its flip bits.  \<open>DecodeGID\<close> tests the raw id against
  \<open>0\<close> before the flip bits are masked off: on a map whose only tileset starts at 1, the
  id \<open>0x80000000\<close> (bare id 0, horizontal flip) is answered with \<^verbatim>\<open>InvalidGID\<close>.  The id
  \<open>0\<close> is answered with \<open>NilTile\<close>, whose \<^verbatim>\<open>Nil\<close> field is false.
\<close>

theorem DecodeGID_flipped_zero:
  "DecodeGID (smallMap [] []) 0x80000000 = Inl InvalidGID
   \<and> DecodeGID (smallMap [] []) 0 = Inr NilTile
   \<and> NilFlag NilTile = False"
  by (simp add: gid_defs ex_defs)

text \<open>
  C2.  After a successful \<^verbatim>\<open>Read\<close>, a layer whose non-nil cells all come from one tileset
  should have that tileset and \<open>Empty = false\<close>.  On a map with one tileset starting at 1,
  the layer with the ids \<open>1, 0\<close> is read successfully; its second cell is the \<open>NilTile\<close>
  sentinel, whose \<^verbatim>\<open>Nil\<close> field is false and whose tileset is nil, so \<open>getTileset\<close> reports
  a second tileset and the layer is left with no tileset.
\<close>

theorem Read_trailing_zero:
  "Read plainLib (smallMap [] [1, 0]) = Inr ((smallMap [] [1, 0])\<lparr>Layers := [trailingZeroLayer]\<rparr>)
   \<and> DecodedTiles trailingZeroLayer = [tileOf 0 0, NilTile]
   \<and> LayerTileset trailingZeroLayer = None
   \<and> Empty trailingZeroLayer = False"
  by (simp add: gid_defs ex_defs read_defs word_le_nat_alt)

text \<open>
  C3.  In bitmap mode a layer of \<open>width * height\<close> cells should give
  \<open>ceil(width * height / 8)\<close> bytes, bit \<open>j\<close> of byte \<open>i\<close> telling whether cell
  \<open>8 * i + j\<close> is non-nil.  \<open>saveLayerBitmap\<close> writes a byte only when the counter reaches
  8, and the counter, which it sets back to 0, is also its index into the cells: a 2 by 2
  layer of non-nil cells gives no byte at all (one byte with the low four bits set is
  expected), a 3 by 3 layer of non-nil cells gives one byte (two are expected), and a 4 by
  4 layer whose first eight cells are non-nil and whose last eight cells are nil gives
  \<open>0xFF, 0xFF\<close> (\<open>0xFF, 0x00\<close> is expected).
\<close>

theorem saveLayerBitmap_small:
  "saveLayerBitmap (twoSetMap 2 2 [] []) (decodedLayer [] (replicate 4 (tileOf 0 0)) (Some 0) False)
       (newFile 10)
     = (None, \<lparr>written = [], quota = 10, closed = True\<rparr>)
   \<and> saveLayerBitmap (twoSetMap 3 3 [] []) (decodedLayer [] (replicate 9 (tileOf 0 0)) (Some 0) False)
       (newFile 10)
     = (None, \<lparr>written = [255], quota = 9, closed = True\<rparr>)
   \<and> saveLayerBitmap (twoSetMap 4 4 [] [])
       (decodedLayer [] (replicate 8 (tileOf 0 0) @ replicate 8 nilCell) (Some 0) False)
       (newFile 10)
     = (None, \<lparr>written = [255, 255], quota = 8, closed = True\<rparr>)"
  by (simp add: ex_defs save_defs steps nth_append)

text \<open>
  C4.  With \<open>Affine = true\<close>, no \<^verbatim>\<open>NilTile\<close> property and a tileset of 16 tiles, every nil
  cell should be written as the single byte 16.  Four evaluations on such a layer:
  the layer read from the ids \<open>0, 1\<close> is exported as \<open>0, 0, 0, 0\<close> (the cell with id 0 is
  the \<open>NilTile\<close> sentinel, which is not Nil, and the entries are 16 bits wide); for a cell
  whose \<^verbatim>\<open>Nil\<close> field is set, \<open>ScreenblockEntry\<close> returns the 16-bit value 0 on its first
  call; two such cells are exported as \<open>0, 0, 16, 0\<close>; and with the other revision of the
  property lookup the two cells are exported as the bytes \<open>0, 16\<close>.
\<close>

theorem ScreenblockEntry_nil_cell:
  "Read plainLib (smallMap affineProps [0, 1])
     = Inr ((smallMap affineProps [0, 1])\<lparr>Layers := [leadingZeroLayer]\<rparr>)
   \<and> saveLayer (GBAConsole GetProperty_ptr) passThrough
         ((smallMap affineProps [0, 1])\<lparr>Layers := [leadingZeroLayer]\<rparr>) 0 leadingZeroLayer
         newGBA (newFile 10)
       = (None, \<lparr>isAffineCache = [0 \<mapsto> False], nilTileCache = Map.empty\<rparr>,
          \<lparr>written = [0, 0, 0, 0], quota = 8, closed = True\<rparr>)
   \<and> fst (GBA_ScreenblockEntry GetProperty_ptr newGBA (smallMap affineProps []) 0 affineLayer
         nilCell) = Inr (U16 0)
   \<and> saveLayer (GBAConsole GetProperty_ptr) passThrough (smallMap affineProps []) 0 affineLayer
         newGBA (newFile 10)
       = (None, \<lparr>isAffineCache = [0 \<mapsto> False], nilTileCache = [0 \<mapsto> 16]\<rparr>,
          \<lparr>written = [0, 0, 16, 0], quota = 8, closed = True\<rparr>)
   \<and> saveLayer (GBAConsole GetProperty) passThrough (smallMap affineProps []) 0 affineLayer
         newGBA (newFile 10)
       = (None, \<lparr>isAffineCache = [0 \<mapsto> True], nilTileCache = [0 \<mapsto> 16]\<rparr>,
          \<lparr>written = [0, 16], quota = 8, closed = True\<rparr>)"
  by (simp add: gid_defs ex_defs read_defs gba_defs save_defs steps word_le_nat_alt)

text \<open>
  C5.  Let the tilesets of a map be sorted with non-overlapping ranges, let tileset \<open>k\<close>
  have the range \<open>[f, f + n)\<close> and let the bare id of \<open>gid\<close> (its low 29 bits) lie in that
  range; the bare id is not 0, which is the id of the empty cell and belongs to no
  tileset.  Then, whatever the three flip bits of \<open>gid\<close>, \<open>DecodeGID\<close> returns without
  error a tile of tileset \<open>k\<close> whose local id is the bare id minus \<open>f\<close> (without
  wrap-around) and whose two flip flags are bit 31 (horizontal) and bit 30 (vertical) of
  \<open>gid\<close>.
\<close>

theorem DecodeGID_in_range:
  assumes sorted: "\<forall>i j. i < j \<and> j < length (Tilesets m) \<longrightarrow>
       unat (FirstGID (Tilesets m ! i)) + length (Tiles (Tilesets m ! i))
         \<le> unat (FirstGID (Tilesets m ! j))"
    and k: "k < length (Tilesets m)"
    and lo: "unat (FirstGID (Tilesets m ! k)) \<le> unat (gid AND NOT GIDFlip)"
    and hi: "unat (gid AND NOT GIDFlip)
               < unat (FirstGID (Tilesets m ! k)) + length (Tiles (Tilesets m ! k))"
    and bare: "gid AND NOT GIDFlip \<noteq> 0"
  shows "DecodeGID m gid =
           Inr \<lparr>ID = (gid AND NOT GIDFlip) - FirstGID (Tilesets m ! k), Tileset = Some k,
                HorizontalFlip = bit gid 31, VerticalFlip = bit gid 30, NilFlag = False\<rparr>
         \<and> unat ((gid AND NOT GIDFlip) - FirstGID (Tilesets m ! k))
             = unat (gid AND NOT GIDFlip) - unat (FirstGID (Tilesets m ! k))"
proof -
  let ?ts = "Tilesets m" and ?bare = "gid AND NOT GIDFlip"
  have le: "FirstGID (?ts ! k) \<le> ?bare"
    using lo by (simp add: word_le_nat_alt)
  have above: "\<forall>j. k < j \<and> j < length ?ts \<longrightarrow> \<not> FirstGID (?ts ! j) \<le> ?bare"
  proof (intro allI impI)
    fix j assume j: "k < j \<and> j < length ?ts"
    with sorted have "unat (FirstGID (?ts ! k)) + length (Tiles (?ts ! k)) \<le> unat (FirstGID (?ts ! j))"
      by blast
    with hi have "unat ?bare < unat (FirstGID (?ts ! j))" by linarith
    then show "\<not> FirstGID (?ts ! j) \<le> ?bare" by (simp add: word_le_nat_alt)
  qed
  from bare have nz: "gid \<noteq> 0" by auto
  have "DecodeGID m gid = scanTilesets ?ts (length ?ts) gid ?bare"
    using nz by (simp add: DecodeGID_def)
  also have "\<dots> = Inr \<lparr>ID = ?bare - FirstGID (?ts ! k), Tileset = Some k,
                HorizontalFlip = (gid AND GIDHorizontalFlip \<noteq> 0),
                VerticalFlip = (gid AND GIDVerticalFlip \<noteq> 0), NilFlag = False\<rparr>"
    by (rule scanTilesets_hit [OF k le above])
  finally have first: "DecodeGID m gid =
           Inr \<lparr>ID = ?bare - FirstGID (?ts ! k), Tileset = Some k,
                HorizontalFlip = bit gid 31, VerticalFlip = bit gid 30, NilFlag = False\<rparr>"
    by (simp only: horizontal_bit vertical_bit)
  have "unat (?bare - FirstGID (?ts ! k)) = unat ?bare - unat (FirstGID (?ts ! k))"
    using le by (rule unat_sub)
  with first show ?thesis by simp
qed

text \<open>
  An instance: the id 6 with both flip bits on the map with tilesets \<open>[1, 5)\<close> and
  \<open>[5, 9)\<close>.
\<close>

theorem DecodeGID_in_range_witness:
  "(0xC0000006 :: GID) AND NOT GIDFlip \<noteq> 0
   \<and> unat (FirstGID (Tilesets (twoSetMap 1 1 [] []) ! 1)) = 5
   \<and> length (Tiles (Tilesets (twoSetMap 1 1 [] []) ! 1)) = 4
   \<and> unat ((0xC0000006 :: GID) AND NOT GIDFlip) = 6
   \<and> DecodeGID (twoSetMap 1 1 [] []) 0xC0000006 =
       Inr \<lparr>ID = 1, Tileset = Some 1, HorizontalFlip = True, VerticalFlip = True,
            NilFlag = False\<rparr>"
proof -
  let ?m = "twoSetMap 1 1 [] []" and ?gid = "0xC0000006 :: GID"
  have bare: "?gid AND NOT GIDFlip = 6"
    by (simp add: gid_defs)
  have s: "\<forall>i j. i < j \<and> j < length (Tilesets ?m) \<longrightarrow>
       unat (FirstGID (Tilesets ?m ! i)) + length (Tiles (Tilesets ?m ! i))
         \<le> unat (FirstGID (Tilesets ?m ! j))"
    by (auto simp add: ex_defs less_Suc_eq)
  have k: "1 < length (Tilesets ?m)" by (simp add: ex_defs)
  have f: "unat (FirstGID (Tilesets ?m ! 1)) = 5" and n: "length (Tiles (Tilesets ?m ! 1)) = 4"
    by (simp_all add: ex_defs)
  have lo: "unat (FirstGID (Tilesets ?m ! 1)) \<le> unat (?gid AND NOT GIDFlip)"
    unfolding bare f by simp
  have hi: "unat (?gid AND NOT GIDFlip) < unat (FirstGID (Tilesets ?m ! 1)) + length (Tiles (Tilesets ?m ! 1))"
    unfolding bare f n by simp
  have nz: "?gid AND NOT GIDFlip \<noteq> 0" unfolding bare by simp
  have b31: "bit ?gid 31" and b30: "bit ?gid 30" by simp_all
  have id: "(6 :: GID) - FirstGID (Tilesets ?m ! 1) = 1" by (simp add: ex_defs)
  from DecodeGID_in_range [OF s k lo hi nz] bare f n nz b31 b30 id show ?thesis
    by simp
qed

text \<open>
  C6 (as it holds).  In indexed mode (\<open>saveLayer\<close>) the preconditions come first: a layer
  without tileset fails with \<^verbatim>\<open>EmptyLayer\<close> when it is empty and with \<^verbatim>\<open>MultipleTilesets\<close>
  otherwise; a layer whose tileset has more tiles than the console's \<^verbatim>\<open>MaxTiles\<close> fails with
  \<^verbatim>\<open>TooManyTiles\<close>.  In each case the file is only closed: no write has been made.
\<close>

theorem saveLayer_preconditions:
  "(LayerTileset l = None \<longrightarrow>
      saveLayer c cmpr m k l g w
        = (Some (if Empty l then EmptyLayer else MultipleTilesets), g, Close w))
   \<and> (\<forall>t. LayerTileset l = Some t
          \<and> int (length (Tiles (Tilesets m ! t))) > fst (MaxTiles c g m k l) \<longrightarrow>
      saveLayer c cmpr m k l g w = (Some TooManyTiles, snd (MaxTiles c g m k l), Close w))
   \<and> written (Close w) = written w \<and> quota (Close w) = quota w"
proof (intro conjI allI impI)
  assume "LayerTileset l = None"
  then show "saveLayer c cmpr m k l g w
      = (Some (if Empty l then EmptyLayer else MultipleTilesets), g, Close w)"
    by (simp add: saveLayer_def)
next
  fix t
  assume a: "LayerTileset l = Some t
      \<and> int (length (Tiles (Tilesets m ! t))) > fst (MaxTiles c g m k l)"
  obtain mx g1 where "MaxTiles c g m k l = (mx, g1)"
    by (cases "MaxTiles c g m k l")
  with a show "saveLayer c cmpr m k l g w
      = (Some TooManyTiles, snd (MaxTiles c g m k l), Close w)"
    by (simp add: saveLayer_def)
qed (simp_all add: Close_def)

text \<open>
  Instances: a layer over two tilesets, an empty layer, and a layer whose tileset has 512
  tiles (the GBA console allows 511).
\<close>

theorem saveLayer_preconditions_witness:
  "LayerTileset mixedLayer = None
   \<and> saveLayer (GBAConsole GetProperty_ptr) passThrough (twoSetMap 4 2 [] []) 0 mixedLayer
         newGBA (newFile 10)
       = (Some MultipleTilesets, newGBA, \<lparr>written = [], quota = 10, closed = True\<rparr>)
   \<and> LayerTileset (decodedLayer [] [NilTile] None True) = None
   \<and> saveLayer (GBAConsole GetProperty_ptr) passThrough (twoSetMap 1 1 [] []) 0
         (decodedLayer [] [NilTile] None True) newGBA (newFile 10)
       = (Some EmptyLayer, newGBA, \<lparr>written = [], quota = 10, closed = True\<rparr>)
   \<and> LayerTileset (decodedLayer [] [tileOf 0 0] (Some 0) False) = Some 0
   \<and> int (length (Tiles (Tilesets bigMap ! 0)))
       > fst (MaxTiles (GBAConsole GetProperty_ptr) newGBA bigMap 0
               (decodedLayer [] [tileOf 0 0] (Some 0) False))
   \<and> saveLayer (GBAConsole GetProperty_ptr) passThrough bigMap 0
         (decodedLayer [] [tileOf 0 0] (Some 0) False) newGBA (newFile 10)
       = (Some TooManyTiles, \<lparr>isAffineCache = [0 \<mapsto> False], nilTileCache = Map.empty\<rparr>,
          \<lparr>written = [], quota = 10, closed = True\<rparr>)"
proof -
  let ?c = "GBAConsole GetProperty_ptr"
  let ?e = "decodedLayer [] [NilTile] None True"
  let ?b = "decodedLayer [] [tileOf 0 0] (Some 0) False"
  have m: "LayerTileset mixedLayer = None" and me: "Empty mixedLayer = False"
    by (simp_all add: ex_defs)
  have e: "LayerTileset ?e = None" and ee: "Empty ?e = True"
    by (simp_all add: ex_defs)
  have b: "LayerTileset ?b = Some 0"
    by (simp add: ex_defs)
  have mt: "MaxTiles ?c newGBA bigMap 0 ?b
      = (511, \<lparr>isAffineCache = [0 \<mapsto> False], nilTileCache = Map.empty\<rparr>)"
    by (simp add: ex_defs gba_defs)
  have n: "int (length (Tiles (Tilesets bigMap ! 0))) > fst (MaxTiles ?c newGBA bigMap 0 ?b)"
    unfolding mt by (simp add: ex_defs)
  have cl: "Close (newFile 10) = \<lparr>written = [], quota = 10, closed = True\<rparr>"
    by (simp add: Close_def newFile_def)
  from saveLayer_preconditions [of mixedLayer ?c passThrough "twoSetMap 4 2 [] []" 0 newGBA "newFile 10"]
    m me
  have 1: "saveLayer ?c passThrough (twoSetMap 4 2 [] []) 0 mixedLayer newGBA (newFile 10)
      = (Some MultipleTilesets, newGBA, \<lparr>written = [], quota = 10, closed = True\<rparr>)"
    by (simp add: cl)
  from saveLayer_preconditions [of ?e ?c passThrough "twoSetMap 1 1 [] []" 0 newGBA "newFile 10"]
    e ee
  have 2: "saveLayer ?c passThrough (twoSetMap 1 1 [] []) 0 ?e newGBA (newFile 10)
      = (Some EmptyLayer, newGBA, \<lparr>written = [], quota = 10, closed = True\<rparr>)"
    by (simp add: cl)
  from saveLayer_preconditions [of ?b ?c passThrough bigMap 0 newGBA "newFile 10"] b n
  have 3: "saveLayer ?c passThrough bigMap 0 ?b newGBA (newFile 10)
      = (Some TooManyTiles, \<lparr>isAffineCache = [0 \<mapsto> False], nilTileCache = Map.empty\<rparr>,
          \<lparr>written = [], quota = 10, closed = True\<rparr>)"
    by (simp add: cl mt)
  from m e b n 1 2 3 show ?thesis by simp
qed

text \<open>
  C6 as stated fails in bitmap mode, which has no precondition: the layer that \<^verbatim>\<open>Read\<close>
  produces from cells of two tilesets has no tileset and is not empty, and its export with
  \<open>Bitmap = true\<close> writes a byte and returns no error.
\<close>

theorem exportLayer_bitmap_unchecked_counterexample:
  "Read plainLib (twoSetMap 4 2 bitmapProps mixedGIDs)
     = Inr ((twoSetMap 4 2 bitmapProps mixedGIDs)\<lparr>Layers := [mixedLayer]\<rparr>)
   \<and> LayerTileset mixedLayer = None
   \<and> Empty mixedLayer = False
   \<and> exportLayer (GBAConsole GetProperty_ptr) passThrough
         ((twoSetMap 4 2 bitmapProps mixedGIDs)\<lparr>Layers := [mixedLayer]\<rparr>) 0 mixedLayer
         newGBA (newFile 10)
       = (None, newGBA, \<lparr>written = [255], quota = 9, closed = True\<rparr>)"
  by (simp add: gid_defs ex_defs read_defs gba_defs save_defs steps word_le_nat_alt)

text \<open>
  C7 (as it holds).  A layer with \<open>base64\<close> encoding is decoded by \<open>decodeLayerBase64\<close>.
  The payload is trimmed and put behind a base64 reader, and that reader behind the gzip
  or zlib reader, or behind none when no compression is declared.  If the length of the
  result differs from \<^verbatim>\<open>m.Width*m.Height*4\<close> as Go computes it, a 64-bit product that wraps
  around, the layer fails with \<^verbatim>\<open>InvalidDecodedDataLen\<close>; \<^verbatim>\<open>Read\<close> then fails with the error
  of the first layer that does not decode, before it resolves any id.  For a width and a
  height that are not negative and whose product times 4 is below \<open>2 ^ 63\<close>, that product
  is the exact one, and if the length matches, the layer gets \<open>width * height\<close> ids, the
  id of the cell in row \<open>y\<close> and column \<open>x\<close> being the little-endian value of the four
  bytes at position \<open>4 * (y * width + x)\<close>.
\<close>

theorem decodeLayerBase64_grid:
  "(Encoding (LayerData l) = ''base64'' \<longrightarrow> decodeLayer lib m l = decodeLayerBase64 lib m l)
   \<and> decodeBase64 lib d =
       (if Compression d = ''gzip''
        then gzipReadAll lib (base64Reader lib (TrimSpace lib (RawData d)))
        else if Compression d = ''zlib''
        then zlibReadAll lib (base64Reader lib (TrimSpace lib (RawData d)))
        else if Compression d = ''''
        then ReadAll (base64Reader lib (TrimSpace lib (RawData d)))
        else Inl UnknownCompression)
   \<and> (\<forall>dataBytes. decodeBase64 lib (LayerData l) = Inr dataBytes \<longrightarrow>
        (int (length dataBytes) \<noteq> sint (Width m * Height m * 4) \<longrightarrow>
           decodeLayerBase64 lib m l = Inl InvalidDecodedDataLen)
        \<and> (0 \<le> sint (Width m) \<and> 0 \<le> sint (Height m)
             \<and> sint (Width m) * sint (Height m) * 4 < 2 ^ 63 \<longrightarrow>
             (int (length dataBytes) \<noteq> sint (Width m) * sint (Height m) * 4 \<longrightarrow>
                decodeLayerBase64 lib m l = Inl InvalidDecodedDataLen)
             \<and> (int (length dataBytes) = sint (Width m) * sint (Height m) * 4 \<longrightarrow>
                  (\<exists>gids. decodeLayerBase64 lib m l = Inr (l\<lparr>GIDs := gids\<rparr>)
                     \<and> int (length gids) = sint (Width m) * sint (Height m)
                     \<and> (\<forall>y x. 0 \<le> y \<and> y < sint (Height m) \<and> 0 \<le> x \<and> x < sint (Width m) \<longrightarrow>
                           unat (gids ! nat (y * sint (Width m) + x)) =
                             unat (dataBytes ! (4 * nat (y * sint (Width m) + x)))
                             + 256 * unat (dataBytes ! (4 * nat (y * sint (Width m) + x) + 1))
                             + 65536 * unat (dataBytes ! (4 * nat (y * sint (Width m) + x) + 2))
                             + 16777216 * unat (dataBytes ! (4 * nat (y * sint (Width m) + x) + 3)))))))
   \<and> (\<forall>ls1 ls2. map unmarshalled (Layers m0) = ls1 @ l # ls2
          \<and> (\<forall>l' \<in> set ls1. \<exists>r.
                decodeLayer lib (m0\<lparr>Layers := map unmarshalled (Layers m0)\<rparr>) l' = Inr r)
          \<and> decodeLayer lib (m0\<lparr>Layers := map unmarshalled (Layers m0)\<rparr>) l = Inl err \<longrightarrow>
        Read lib m0 = Inl err)"
proof (intro conjI allI impI)
  assume "Encoding (LayerData l) = ''base64''"
  then show "decodeLayer lib m l = decodeLayerBase64 lib m l"
    by (simp add: decodeLayer_def)
next
  show "decodeBase64 lib d =
       (if Compression d = ''gzip''
        then gzipReadAll lib (base64Reader lib (TrimSpace lib (RawData d)))
        else if Compression d = ''zlib''
        then zlibReadAll lib (base64Reader lib (TrimSpace lib (RawData d)))
        else if Compression d = ''''
        then ReadAll (base64Reader lib (TrimSpace lib (RawData d)))
        else Inl UnknownCompression)"
    by (simp add: decodeBase64_def Let_def)
next
  fix dataBytes
  assume "decodeBase64 lib (LayerData l) = Inr dataBytes"
    and "int (length dataBytes) \<noteq> sint (Width m * Height m * 4)"
  then show "decodeLayerBase64 lib m l = Inl InvalidDecodedDataLen"
    by (simp add: decodeLayerBase64_def)
next
  fix dataBytes
  assume dec: "decodeBase64 lib (LayerData l) = Inr dataBytes"
    and dims: "0 \<le> sint (Width m) \<and> 0 \<le> sint (Height m)
             \<and> sint (Width m) * sint (Height m) * 4 < 2 ^ 63"
    and len: "int (length dataBytes) \<noteq> sint (Width m) * sint (Height m) * 4"
  from dims have "sint (Width m * Height m * 4) = sint (Width m) * sint (Height m) * 4"
    by (intro product_no_wrap) simp_all
  with dec len show "decodeLayerBase64 lib m l = Inl InvalidDecodedDataLen"
    by (simp add: decodeLayerBase64_def)
next
  fix dataBytes
  assume dec: "decodeBase64 lib (LayerData l) = Inr dataBytes"
    and dims: "0 \<le> sint (Width m) \<and> 0 \<le> sint (Height m)
             \<and> sint (Width m) * sint (Height m) * 4 < 2 ^ 63"
    and len: "int (length dataBytes) = sint (Width m) * sint (Height m) * 4"
  let ?W = "Width m" and ?sw = "sint (Width m)" and ?sh = "sint (Height m)"
  let ?w = "nat ?sw" and ?h = "nat ?sh"
  let ?g = "replicate (nat (?sw * ?sh)) (0 :: GID)"
  from dims have w0: "0 \<le> ?sw" and h0: "0 \<le> ?sh" and small: "?sw * ?sh * 4 < 2 ^ 63"
    by simp_all
  have p4: "sint (Width m * Height m * 4) = ?sw * ?sh * 4"
    and p1: "sint (Width m * Height m) = ?sw * ?sh"
    using w0 h0 small by (rule product_no_wrap)+
  have uw: "unat ?W = ?w"
    using w0 by (rule unat_nonneg_sint)
  have n0: "0 \<le> ?sw * ?sh" using w0 h0 by simp
  have n62: "\<not> 2 ^ 62 \<le> ?sw * ?sh"
  proof
    assume "2 ^ 62 \<le> ?sw * ?sh"
    then have "2 ^ 62 * 4 \<le> ?sw * ?sh * 4" by (rule mult_right_mono) simp
    with small show False by simp
  qed
  have mk: "makeGIDs (sint (Width m * Height m)) = Inr ?g"
    using n0 n62 by (simp add: makeGIDs_def p1)
  have cells_nat: "nat (?sw * ?sh) = ?h * ?w"
    using w0 h0 by (simp add: nat_mult_distrib mult.commute)
  have lenb: "length dataBytes = 4 * (?h * ?w)"
  proof -
    have "int (length dataBytes) = int (4 * (?h * ?w))"
      using len w0 h0 by (simp add: mult.commute)
    then show ?thesis by (simp only: of_nat_eq_iff)
  qed
  have lg: "length ?g = ?h * ?w"
    by (simp add: cells_nat)
  have gsmall: "length ?g < 2 ^ 63"
  proof -
    have e: "int (length ?g) = ?sw * ?sh" using n0 by simp
    have "?sw * ?sh \<le> ?sw * ?sh * 4" using n0 by linarith
    then have "?sw * ?sh < 2 ^ 63" using small by (rule order_le_less_trans)
    then have "int (length ?g) < 2 ^ 63" by (simp only: e)
    then show ?thesis by (metis of_nat_less_iff of_nat_numeral of_nat_power)
  qed
  have a: "4 * ((0 + ?h) * unat ?W) \<le> length dataBytes"
    and b: "(0 + ?h) * unat ?W \<le> length ?g"
    by (simp_all only: uw lenb lg add_0 order_refl)
  from fillRows_ok [OF w0 a b gsmall] obtain j' gids where
    run: "fillRows dataBytes ?W ?h 0 (4 * (0 * unat ?W), ?g) = Inr (j', gids)"
    and lgids: "length gids = length ?g"
    and c: "\<forall>p. gids ! p =
        (if 0 * unat ?W \<le> p \<and> p < (0 + ?h) * unat ?W then gidAt dataBytes (4 * p) else ?g ! p)"
    by blast
  from run have run': "fillRows dataBytes ?W ?h 0 (0, ?g) = Inr (j', gids)"
    by simp
  have res: "decodeLayerBase64 lib m l = Inr (l\<lparr>GIDs := gids\<rparr>)"
    using dec len by (simp add: decodeLayerBase64_def p4 mk run')
  have l: "int (length gids) = ?sw * ?sh"
    using lgids n0 by simp
  have cells: "unat (gids ! nat (y * ?sw + x)) =
        unat (dataBytes ! (4 * nat (y * ?sw + x)))
        + 256 * unat (dataBytes ! (4 * nat (y * ?sw + x) + 1))
        + 65536 * unat (dataBytes ! (4 * nat (y * ?sw + x) + 2))
        + 16777216 * unat (dataBytes ! (4 * nat (y * ?sw + x) + 3))"
    if yx: "0 \<le> y \<and> y < ?sh \<and> 0 \<le> x \<and> x < ?sw" for y x
  proof -
    from yx have wpos: "0 < ?sw" by linarith
    have "y * ?sw + x \<le> (?sh - 1) * ?sw + (?sw - 1)"
      using yx wpos by (intro add_mono mult_right_mono) simp_all
    also have "\<dots> < ?sh * ?sw"
      by (simp add: algebra_simps)
    finally have "y * ?sw + x < ?sh * ?sw" .
    moreover have "0 \<le> y * ?sw + x" using yx wpos by simp
    moreover have "int (?h * ?w) = ?sh * ?sw" using w0 h0 by simp
    ultimately have "int (nat (y * ?sw + x)) < int (?h * ?w)"
      by simp
    then have p: "nat (y * ?sw + x) < ?h * ?w"
      by (simp only: of_nat_less_iff)
    from c have "gids ! nat (y * ?sw + x) = gidAt dataBytes (4 * nat (y * ?sw + x))"
      using p by (simp add: uw)
    then show ?thesis by (simp only: unat_gidAt)
  qed
  show "\<exists>gids. decodeLayerBase64 lib m l = Inr (l\<lparr>GIDs := gids\<rparr>)
      \<and> int (length gids) = ?sw * ?sh
      \<and> (\<forall>y x. 0 \<le> y \<and> y < ?sh \<and> 0 \<le> x \<and> x < ?sw \<longrightarrow>
            unat (gids ! nat (y * ?sw + x)) =
              unat (dataBytes ! (4 * nat (y * ?sw + x)))
              + 256 * unat (dataBytes ! (4 * nat (y * ?sw + x) + 1))
              + 65536 * unat (dataBytes ! (4 * nat (y * ?sw + x) + 2))
              + 16777216 * unat (dataBytes ! (4 * nat (y * ?sw + x) + 3)))"
    using res l cells by blast
next
  fix ls1 ls2
  let ?m = "m0\<lparr>Layers := map unmarshalled (Layers m0)\<rparr>"
  assume a: "map unmarshalled (Layers m0) = ls1 @ l # ls2
      \<and> (\<forall>l' \<in> set ls1. \<exists>r. decodeLayer lib ?m l' = Inr r)
      \<and> decodeLayer lib ?m l = Inl err"
  then have "decodeLayerList lib ?m (ls1 @ l # ls2) = Inl err"
    by (intro decodeLayerList_first_error) blast+
  with a have "decodeLayers lib ?m = Inl err"
    by (simp add: decodeLayers_def)
  then show "Read lib m0 = Inl err"
    by (simp add: Read_def)
qed

text \<open>
  Instances, with the pass-through library, on the 2 by 1 map with two layers: the eight
  bytes \<open>ABCDEFGH\<close> give the ids \<open>0x44434241\<close> and \<open>0x48474645\<close>; the seven bytes
  \<open>ABCDEFG\<close> give \<^verbatim>\<open>InvalidDecodedDataLen\<close>, and so does \<^verbatim>\<open>Read\<close> of the map.
\<close>

theorem decodeLayerBase64_grid_witness:
  "Encoding (LayerData (base64Layer ''ABCDEFGH'')) = ''base64''
   \<and> decodeBase64 plainLib (LayerData (base64Layer ''ABCDEFGH''))
       = Inr [65, 66, 67, 68, 69, 70, 71, 72]
   \<and> sint (Width twoLayerMap) = 2 \<and> sint (Height twoLayerMap) = 1
   \<and> decodeLayer plainLib twoLayerMap (base64Layer ''ABCDEFGH'')
       = Inr ((base64Layer ''ABCDEFGH'')\<lparr>GIDs := [0x44434241, 0x48474645]\<rparr>)
   \<and> decodeBase64 plainLib (LayerData (base64Layer ''ABCDEFG''))
       = Inr [65, 66, 67, 68, 69, 70, 71]
   \<and> decodeLayer plainLib twoLayerMap (base64Layer ''ABCDEFG'') = Inl InvalidDecodedDataLen
   \<and> Read plainLib twoLayerMap = Inl InvalidDecodedDataLen"
proof -
  let ?l = "base64Layer ''ABCDEFGH''" and ?l' = "base64Layer ''ABCDEFG''"
  let ?m = twoLayerMap
  let ?bs = "[65, 66, 67, 68, 69, 70, 71, 72] :: byte list"
  let ?bs' = "[65, 66, 67, 68, 69, 70, 71] :: byte list"
  have enc: "Encoding (LayerData ?l) = ''base64''" and enc': "Encoding (LayerData ?l') = ''base64''"
    by (simp_all add: base64Layer_def)
  have dec: "decodeBase64 plainLib (LayerData ?l) = Inr ?bs"
    by (simp add: decodeBase64_def base64Layer_def plainLib_def ReadAll_def)
  have dec': "decodeBase64 plainLib (LayerData ?l') = Inr ?bs'"
    by (simp add: decodeBase64_def base64Layer_def plainLib_def ReadAll_def)
  have sw: "sint (Width ?m) = 2" and sh: "sint (Height ?m) = 1"
    by (simp_all add: twoLayerMap_def)
  have dims: "0 \<le> sint (Width ?m) \<and> 0 \<le> sint (Height ?m)
      \<and> sint (Width ?m) * sint (Height ?m) * 4 < 2 ^ 63"
    by (simp add: sw sh)
  have same: "?m\<lparr>Layers := map unmarshalled (Layers ?m)\<rparr> = ?m"
    by (simp add: twoLayerMap_def base64Layer_def unmarshalled_def)
  have split: "map unmarshalled (Layers ?m) = [?l] @ ?l' # []"
    by (simp add: twoLayerMap_def base64Layer_def unmarshalled_def)
  note good = decodeLayerBase64_grid
    [where l = ?l and lib = plainLib and m = ?m and d = "LayerData ?l" and ?m0.0 = ?m
       and err = InvalidDecodedDataLen]
  note bad = decodeLayerBase64_grid
    [where l = ?l' and lib = plainLib and m = ?m and d = "LayerData ?l'" and ?m0.0 = ?m
       and err = InvalidDecodedDataLen]
  from good enc have disp: "decodeLayer plainLib ?m ?l = decodeLayerBase64 plainLib ?m ?l"
    by blast
  from bad enc' have disp': "decodeLayer plainLib ?m ?l' = decodeLayerBase64 plainLib ?m ?l'"
    by blast
  have len: "int (length ?bs) = sint (Width ?m) * sint (Height ?m) * 4"
    and len': "int (length ?bs') \<noteq> sint (Width ?m) * sint (Height ?m) * 4"
    and wrapped': "int (length ?bs') \<noteq> sint (Width ?m * Height ?m * 4)"
    by (simp_all add: sw sh) (simp add: twoLayerMap_def)
  from bad dec' wrapped' have r': "decodeLayerBase64 plainLib ?m ?l' = Inl InvalidDecodedDataLen"
    by blast
  from bad dec' dims len' have "decodeLayerBase64 plainLib ?m ?l' = Inl InvalidDecodedDataLen"
    by blast
  from good dec dims len obtain gids where
    r: "decodeLayerBase64 plainLib ?m ?l = Inr (?l\<lparr>GIDs := gids\<rparr>)"
    and n: "int (length gids) = sint (Width ?m) * sint (Height ?m)"
    and c: "\<forall>y x. 0 \<le> y \<and> y < sint (Height ?m) \<and> 0 \<le> x \<and> x < sint (Width ?m) \<longrightarrow>
              unat (gids ! nat (y * sint (Width ?m) + x)) =
                unat (?bs ! (4 * nat (y * sint (Width ?m) + x)))
                + 256 * unat (?bs ! (4 * nat (y * sint (Width ?m) + x) + 1))
                + 65536 * unat (?bs ! (4 * nat (y * sint (Width ?m) + x) + 2))
                + 16777216 * unat (?bs ! (4 * nat (y * sint (Width ?m) + x) + 3))"
    by blast
  from c [rule_format, of 0 0] have "unat (gids ! 0) = 1145258561"
    by (simp add: sw sh)
  then have g0: "gids ! 0 = 0x44434241"
    by (simp add: word_unat_eq_iff)
  from c [rule_format, of 0 1] have "unat (gids ! 1) = 1212630597"
    by (simp add: sw sh)
  then have g1: "gids ! 1 = 0x48474645"
    by (simp add: word_unat_eq_iff)
  from n have "length gids = 2" by (simp add: sw sh)
  then have "gids = [gids ! 0, gids ! 1]"
    by (cases gids; cases "tl gids") auto
  with g0 g1 have "gids = [0x44434241, 0x48474645]" by simp
  with r disp have ok: "decodeLayer plainLib ?m ?l = Inr (?l\<lparr>GIDs := [0x44434241, 0x48474645]\<rparr>)"
    by simp
  from r' disp' have ko: "decodeLayer plainLib ?m ?l' = Inl InvalidDecodedDataLen"
    by simp
  have before: "\<forall>l' \<in> set [?l]. \<exists>r.
      decodeLayer plainLib (?m\<lparr>Layers := map unmarshalled (Layers ?m)\<rparr>) l' = Inr r"
    using ok by (simp add: same)
  have fails: "decodeLayer plainLib (?m\<lparr>Layers := map unmarshalled (Layers ?m)\<rparr>) ?l'
      = Inl InvalidDecodedDataLen"
    using ko by (simp add: same)
  from bad split before fails have rd: "Read plainLib ?m = Inl InvalidDecodedDataLen"
    by blast
  from enc dec sw sh ok dec' ko rd show ?thesis by simp
qed

text \<open>
  C7 as stated fails where Go's product wraps around.  On the map of width 2 and height
  \<open>- (2 ^ 63 - 1)\<close> the payload of eight bytes differs in length from
  \<open>width * height * 4\<close>, yet the length test passes (\<^verbatim>\<open>m.Width*m.Height*4\<close> is 8 in Go),
  two ids are allocated, the loops over a negative height do nothing, and the layer is
  decoded without error to the ids \<open>0, 0\<close>, whatever the bytes.
\<close>

theorem decodeLayerBase64_wrap_counterexample:
  "sint (Width wrapMap) = 2
   \<and> sint (Height wrapMap) = - 9223372036854775807
   \<and> Encoding (LayerData (base64Layer ''ABCDEFGH'')) = ''base64''
   \<and> decodeBase64 plainLib (LayerData (base64Layer ''ABCDEFGH''))
       = Inr [65, 66, 67, 68, 69, 70, 71, 72]
   \<and> int (length [65, 66, 67, 68, 69, 70, 71, 72 :: byte])
       \<noteq> sint (Width wrapMap) * sint (Height wrapMap) * 4
   \<and> decodeLayer plainLib wrapMap (base64Layer ''ABCDEFGH'')
       = Inr ((base64Layer ''ABCDEFGH'')\<lparr>GIDs := [0, 0]\<rparr>)"
  by (simp add: wrapMap_def base64Layer_def plainLib_def ReadAll_def decodeBase64_def
      decodeLayer_def decodeLayerBase64_def makeGIDs_def numeral_2_eq_2)

text \<open>
  C8.  The property lookup should return the value when exactly one entry carries the
  key.  The revision called by gba.go returns \<^verbatim>\<open>PropertyUnavailable\<close> and the empty string
  for the single entry \<open>Affine = true\<close>; the revision called by \<^verbatim>\<open>Do\<close> returns the value.
\<close>

theorem GetProperty_ptr_single_entry:
  "GetProperty_ptr affineProps ''Affine'' = ('''', Some PropertyUnavailable)
   \<and> GetProperty affineProps ''Affine'' = (''true'', None)"
  by (simp add: GetProperty_ptr_def GetProperty_def affineProps_def)

text \<open>
  C9.  A failed write during the indexed export of a layer should stop the export and be
  returned.  With a file on which every write fails, \<open>saveLayer\<close> goes through both cells
  of the layer and returns no error; nothing has been written.  On the same kind of file
  \<open>saveLayerBitmap\<close> returns the error of its first write.
\<close>

theorem saveLayer_drops_write_error:
  "saveLayer (GBAConsole GetProperty_ptr) passThrough (smallMap [] []) 0
       (decodedLayer [] [tileOf 0 0, tileOf 0 1] (Some 0) False) newGBA (newFile 0)
     = (None, \<lparr>isAffineCache = [0 \<mapsto> False], nilTileCache = Map.empty\<rparr>,
        \<lparr>written = [], quota = 0, closed = True\<rparr>)
   \<and> Write (newFile 0) [0, 0] = (newFile 0, Some IOError)
   \<and> saveLayerBitmap (twoSetMap 4 2 [] []) mixedLayer (newFile 0)
     = (Some IOError, \<lparr>written = [], quota = 0, closed = True\<rparr>)"
  by (simp add: ex_defs save_defs gba_defs steps)

text \<open>
  C10.  For every map and every id whose low 29 bits are not all zero, \<open>DecodeGID\<close>
  returns the same result for the id with the diagonal-flip bit (bit 29) set as for the
  id with that bit clear.
\<close>

theorem DecodeGID_ignores_diagonal:
  assumes "gid AND 0x1FFFFFFF \<noteq> 0"
  shows "DecodeGID m (gid OR GIDDiagonalFlip) = DecodeGID m (gid AND NOT GIDDiagonalFlip)"
proof -
  let ?ts = "Tilesets m"
  have low: "gid AND mask 29 \<noteq> 0"
    using assms unfolding low_bits_mask .
  have h: "((gid OR GIDDiagonalFlip) AND GIDHorizontalFlip \<noteq> 0)
         = ((gid AND NOT GIDDiagonalFlip) AND GIDHorizontalFlip \<noteq> 0)"
    unfolding horizontal_bit by (simp add: bit_simps bit_GID)
  have v: "((gid OR GIDDiagonalFlip) AND GIDVerticalFlip \<noteq> 0)
         = ((gid AND NOT GIDDiagonalFlip) AND GIDVerticalFlip \<noteq> 0)"
    unfolding vertical_bit by (simp add: bit_simps bit_GID)
  have "DecodeGID m (gid OR GIDDiagonalFlip)
      = scanTilesets ?ts (length ?ts) (gid OR GIDDiagonalFlip) (gid AND NOT GIDFlip)"
    using nonzero_set_diagonal [OF low] by (simp add: DecodeGID_def bare_set_diagonal)
  also have "\<dots> = scanTilesets ?ts (length ?ts) (gid AND NOT GIDDiagonalFlip) (gid AND NOT GIDFlip)"
    by (rule scanTilesets_flags [OF h v])
  also have "\<dots> = DecodeGID m (gid AND NOT GIDDiagonalFlip)"
    using nonzero_clear_diagonal [OF low] by (simp add: DecodeGID_def bare_clear_diagonal)
  finally show ?thesis .
qed

text \<open>An instance of C10: the id 6 on the map with tilesets \<open>[1, 5)\<close> and \<open>[5, 9)\<close>.\<close>

theorem DecodeGID_ignores_diagonal_witness:
  "(6 :: GID) AND 0x1FFFFFFF \<noteq> 0
   \<and> DecodeGID (twoSetMap 1 1 [] []) (6 OR GIDDiagonalFlip) = Inr (tileOf 1 1)
   \<and> DecodeGID (twoSetMap 1 1 [] []) (6 AND NOT GIDDiagonalFlip) = Inr (tileOf 1 1)"
proof -
  have nz: "(6 :: GID) AND 0x1FFFFFFF \<noteq> 0" by simp
  have "DecodeGID (twoSetMap 1 1 [] []) (6 AND NOT GIDDiagonalFlip) = Inr (tileOf 1 1)"
    by (simp add: gid_defs ex_defs word_le_nat_alt)
  with nz DecodeGID_ignores_diagonal [OF nz, of "twoSetMap 1 1 [] []"] show ?thesis
    by simp
qed

end
